theory Spec2Isabelle
  imports Complex_Main "HOL-Library.AList" "HOL-Library.Sublist" "HOL-Library.Log_Nat"
begin

section \<open>Shared model of the runtime\<close>

text \<open>
  The four services of the pipeline (DataIngestionService, DataProcessingService,
  AnalyticsService, OrchestrationService) keep their state in JavaScript \<open>Map\<close>s and arrays.
  A \<open>Map\<close> iterates in insertion order and \<open>set\<close> on a present key keeps the key's position,
  so a \<open>Map\<close> is an association list: \<open>map_of\<close> is \<open>get\<close>, \<open>AList.update\<close> is \<open>set\<close>,
  \<open>AList.delete\<close> is \<open>delete\<close>, \<open>map snd\<close> is \<open>values()\<close>.

  Timestamps (\<open>Date\<close>, \<open>Date.now()\<close>) are milliseconds as \<open>nat\<close>. Every reading of the clock
  and every use of \<open>Math.random()\<close> is an explicit argument of the function that makes it.
\<close>

type_synonym ('k, 'v) jsmap = "('k \<times> 'v) list"

abbreviation map_get :: "('k, 'v) jsmap \<Rightarrow> 'k \<Rightarrow> 'v option" where
  "map_get m k \<equiv> map_of m k"

abbreviation map_has :: "('k, 'v) jsmap \<Rightarrow> 'k \<Rightarrow> bool" where
  "map_has m k \<equiv> map_of m k \<noteq> None"

abbreviation map_set :: "('k, 'v) jsmap \<Rightarrow> 'k \<Rightarrow> 'v \<Rightarrow> ('k, 'v) jsmap" where
  "map_set m k v \<equiv> AList.update k v m"

abbreviation map_delete :: "('k, 'v) jsmap \<Rightarrow> 'k \<Rightarrow> ('k, 'v) jsmap" where
  "map_delete m k \<equiv> AList.delete k m"

abbreviation map_values :: "('k, 'v) jsmap \<Rightarrow> 'v list" where
  "map_values m \<equiv> map snd m"

text \<open>\<open>Array.prototype.find\<close>: the first element satisfying the predicate, or undefined.\<close>

abbreviation array_find :: "('a \<Rightarrow> bool) \<Rightarrow> 'a list \<Rightarrow> 'a option" where
  "array_find P xs \<equiv> List.find P xs"

text \<open>
  A thrown value is an \<open>Error\<close> object with its message, or some other value. A statement
  either completes or throws; \<open>try_catch\<close> is \<open>try { body } catch (error) { handler }\<close>.
  A method of a service that can throw returns the state it leaves together with its outcome.
\<close>

datatype error = Error string | NonError

datatype 'a outcome = Normal 'a | Throws error

definition try_catch :: "'a outcome \<Rightarrow> (error \<Rightarrow> 'a outcome) \<Rightarrow> 'a outcome" where
  "try_catch body handler = (case body of Normal v \<Rightarrow> Normal v | Throws e \<Rightarrow> handler e)"

text \<open>
  A subscriber is a single-argument callback. It is foreign code: all the model knows of a call
  is whether it returned or threw. What a notification did is recorded as the list of calls made
  (position of the callback in the registration array, argument passed) and the list of errors
  written with \<open>console.error\<close>.
\<close>

type_synonym 'a callback = "'a \<Rightarrow> unit outcome"

record 'a NotifyLog =
  invoked :: "(nat \<times> 'a) list"
  logged :: "error list"

definition no_calls :: "'a NotifyLog" where
  "no_calls = \<lparr>invoked = [], logged = []\<rparr>"

text \<open>The errors the callbacks throw when called with \<open>x\<close>, in the order of the callbacks.\<close>

definition thrown_by :: "'a callback list \<Rightarrow> 'a \<Rightarrow> error list" where
  "thrown_by cbs x = concat (map (\<lambda>cb. case cb x of Normal u \<Rightarrow> [] | Throws e \<Rightarrow> [e]) cbs)"

text \<open>
  The loop shared by notifyDataCallbacks, notifyProcessingCallbacks, notifyAnalyticsCallbacks
  and notifyOrchestrationCallbacks:
  \<^verbatim>\<open>for (const callback of callbacks) { try { callback(x); } catch (error) { console.error(..) } }\<close>
  An exception leaving the \<open>try\<close> statement would leave the loop and the function.
\<close>

fun notifyLoop :: "nat \<Rightarrow> 'a callback list \<Rightarrow> 'a \<Rightarrow> 'a NotifyLog \<Rightarrow> 'a NotifyLog outcome" where
  "notifyLoop i [] x lg = Normal lg"
| "notifyLoop i (cb # cbs) x lg =
     (let called = lg\<lparr>invoked := invoked lg @ [(i, x)]\<rparr> in
      case try_catch
             (case cb x of Normal u \<Rightarrow> Normal called | Throws e \<Rightarrow> Throws e)
             (\<lambda>e. Normal (called\<lparr>logged := logged called @ [e]\<rparr>))
      of Throws e \<Rightarrow> Throws e
       | Normal lg' \<Rightarrow> notifyLoop (Suc i) cbs x lg')"

datatype EnvironmentType = IT | OT | Cloud

section \<open>Ingestion stage (DataIngestionService)\<close>

datatype SourceType = SIEM | IDS_IPS | Firewall | EDR | SCADA | PLC | HMI | CloudAPI | Other

datatype SourceStatus = Active | Inactive | SourceError

text \<open>
  \<open>pollingInterval\<close> is the optional number of connectionDetails; the other connection
  details are never read by the service.
\<close>

record DataSource =
  ds_id :: string
  ds_name :: string
  ds_type :: SourceType
  ds_environment :: EnvironmentType
  pollingInterval :: "int option"
  ds_status :: SourceStatus
  lastSyncTime :: "nat option"

text \<open>
  The value of collectionIntervals is the handle of a \<open>setInterval\<close> timer; what the model
  keeps of it is the period in milliseconds. \<open>'r\<close> is the type of raw records (\<open>any\<close>).
\<close>

record 'r IngestionState =
  dataSources :: "(string, DataSource) jsmap"
  collectionIntervals :: "(string, int) jsmap"
  dataBuffer :: "(string, 'r list) jsmap"
  bufferSize :: int
  dataCallbacks :: "(string \<times> 'r list) callback list"

definition newIngestionService :: "'r IngestionState" where
  "newIngestionService =
     \<lparr>dataSources = [], collectionIntervals = [], dataBuffer = [], bufferSize = 1000,
      dataCallbacks = []\<rparr>"

text \<open>Truthiness of an optional number: undefined and 0 are falsy.\<close>

definition truthy_num :: "int option \<Rightarrow> bool" where
  "truthy_num n = (case n of None \<Rightarrow> False | Some v \<Rightarrow> v \<noteq> 0)"

definition stopCollection :: "string \<Rightarrow> 'r IngestionState \<Rightarrow> 'r IngestionState" where
  "stopCollection dataSourceId s =
     (case map_get (collectionIntervals s) dataSourceId of
        Some interval \<Rightarrow>
          s\<lparr>collectionIntervals := map_delete (collectionIntervals s) dataSourceId\<rparr>
      | None \<Rightarrow> s)"

definition sourceNotFound :: "string \<Rightarrow> error" where
  "sourceNotFound dataSourceId = Error (''Data source with ID '' @ dataSourceId @ '' not found'')"

definition startCollection :: "string \<Rightarrow> 'r IngestionState \<Rightarrow> 'r IngestionState \<times> unit outcome" where
  "startCollection dataSourceId s =
     (case map_get (dataSources s) dataSourceId of
        None \<Rightarrow> (s, Throws (sourceNotFound dataSourceId))
      | Some dataSource \<Rightarrow>
          (let s1 = (if map_has (collectionIntervals s) dataSourceId
                     then stopCollection dataSourceId s else s);
               period = (case pollingInterval dataSource of
                           Some v \<Rightarrow> if v \<noteq> 0 then v else 60
                         | None \<Rightarrow> 60) * 1000
           in (s1\<lparr>collectionIntervals :=
                     map_set (collectionIntervals s1) dataSourceId period\<rparr>, Normal ())))"

definition registerDataSource :: "DataSource \<Rightarrow> 'r IngestionState \<Rightarrow> 'r IngestionState \<times> unit outcome" where
  "registerDataSource dataSource s =
     (let s1 = s\<lparr>dataSources := map_set (dataSources s) (ds_id dataSource) dataSource,
                  dataBuffer := map_set (dataBuffer s) (ds_id dataSource) []\<rparr>
      in if ds_status dataSource = Active \<and> truthy_num (pollingInterval dataSource)
         then startCollection (ds_id dataSource) s1
         else (s1, Normal ()))"

definition updateDataSource :: "DataSource \<Rightarrow> 'r IngestionState \<Rightarrow> 'r IngestionState \<times> unit outcome" where
  "updateDataSource dataSource s =
     (case map_get (dataSources s) (ds_id dataSource) of
        None \<Rightarrow> (s, Throws (sourceNotFound (ds_id dataSource)))
      | Some existingSource \<Rightarrow>
          (let s1 = (if map_has (collectionIntervals s) (ds_id dataSource)
                     then stopCollection (ds_id dataSource) s else s);
               s2 = s1\<lparr>dataSources := map_set (dataSources s1) (ds_id dataSource) dataSource\<rparr>
           in if ds_status dataSource = Active \<and> truthy_num (pollingInterval dataSource)
              then startCollection (ds_id dataSource) s2
              else (s2, Normal ())))"

definition removeDataSource :: "string \<Rightarrow> 'r IngestionState \<Rightarrow> 'r IngestionState" where
  "removeDataSource dataSourceId s =
     (let s1 = (if map_has (collectionIntervals s) dataSourceId
                then stopCollection dataSourceId s else s)
      in s1\<lparr>dataSources := map_delete (dataSources s1) dataSourceId,
             dataBuffer := map_delete (dataBuffer s1) dataSourceId\<rparr>)"

definition getBufferedData :: "string \<Rightarrow> 'r IngestionState \<Rightarrow> 'r list" where
  "getBufferedData dataSourceId s =
     (case map_get (dataBuffer s) dataSourceId of Some buffer \<Rightarrow> buffer | None \<Rightarrow> [])"

definition clearBuffer :: "string \<Rightarrow> 'r IngestionState \<Rightarrow> 'r IngestionState" where
  "clearBuffer dataSourceId s = s\<lparr>dataBuffer := map_set (dataBuffer s) dataSourceId []\<rparr>"

definition setBufferSize :: "int \<Rightarrow> 'r IngestionState \<Rightarrow> 'r IngestionState" where
  "setBufferSize size' s = s\<lparr>bufferSize := size'\<rparr>"

definition onData :: "(string \<times> 'r list) callback \<Rightarrow> 'r IngestionState \<Rightarrow> 'r IngestionState" where
  "onData callback s = s\<lparr>dataCallbacks := dataCallbacks s @ [callback]\<rparr>"

definition notifyDataCallbacks ::
  "'r IngestionState \<Rightarrow> string \<Rightarrow> 'r list \<Rightarrow> (string \<times> 'r list) NotifyLog outcome" where
  "notifyDataCallbacks s sourceId data' = notifyLoop 0 (dataCallbacks s) (sourceId, data') no_calls"





section \<open>Processing stage (DataProcessingService)\<close>

text \<open>
  Raw records are untyped objects. The pipeline reads the properties below; each is absent
  (\<open>undefined\<close>) or holds what the collection writes there, a \<open>Date\<close> for \<open>timestamp\<close> and
  a string for the others. An absent property and the empty string are falsy.
\<close>

record RawRecord =
  r_timestamp :: "nat option"
  r_sourceId :: "string option"
  r_sourceName :: "string option"
  r_sourceType :: "string option"
  r_environment :: "string option"
  r_sourceIP :: "string option"
  r_destinationIP :: "string option"
  r_deviceId :: "string option"
  r_resource :: "string option"

definition truthy_str :: "string option \<Rightarrow> bool" where
  "truthy_str v = (case v of None \<Rightarrow> False | Some s \<Rightarrow> s \<noteq> [])"

text \<open>\<open>v || d\<close> on an optional string.\<close>

definition str_or :: "string option \<Rightarrow> string \<Rightarrow> string" where
  "str_or v d = (if truthy_str v then (case v of Some s \<Rightarrow> s | None \<Rightarrow> d) else d)"

datatype Level = Critical | High | Medium | Low

datatype Annotation = ThreatIntel bool nat "string list" | AssetContext Level string string

record SourceRef =
  src_id :: string
  src_name :: string
  src_type :: string

record NormalizedData =
  nd_id :: string
  nd_timestamp :: nat
  nd_source :: SourceRef
  nd_data :: RawRecord
  normalized :: bool
  enriched :: "bool option"
  enrichments :: "(string, Annotation) jsmap option"

record ProcessedData =
  pd_environment :: EnvironmentType
  pd_sourceType :: string
  originalCount :: nat
  normalizedCount :: nat
  enrichedCount :: nat
  pd_data :: "NormalizedData list"
  pd_timestamp :: nat

text \<open>
  What a normalizer reads of the outside world for the record at position \<open>i\<close>: the text of
  \<^verbatim>\<open>${Date.now()}-${Math.random().toString(36).substr(2, 9)}\<close> and the value of \<open>new Date()\<close>.
\<close>

record NormalizeDraws =
  id_stamp :: "nat \<Rightarrow> string"
  read_clock :: "nat \<Rightarrow> nat"

text \<open>
  What an enricher reads for the record at position \<open>i\<close>. A number field is the value of
  \<open>Math.floor(Math.random() * n)\<close>, a truth value that of a comparison \<open>Math.random() < p\<close>,
  a \<open>Level\<close> the element picked from \<^verbatim>\<open>['low', 'medium', 'high', 'critical']\<close>.
\<close>

record EnrichDraws =
  ti_malicious :: "nat \<Rightarrow> bool"
  ti_score :: "nat \<Rightarrow> nat"
  ti_flagged :: "nat \<Rightarrow> bool"
  ti_count :: "nat \<Rightarrow> nat"
  ac_criticality :: "nat \<Rightarrow> Level"
  ac_owner :: "nat \<Rightarrow> nat"
  ac_location :: "nat \<Rightarrow> nat"

record DataProcessor =
  normalize :: "NormalizeDraws \<Rightarrow> RawRecord list \<Rightarrow> NormalizedData list"

record DataEnricher =
  canEnrich :: "EnvironmentType \<Rightarrow> string \<Rightarrow> bool"
  enrich :: "EnrichDraws \<Rightarrow> NormalizedData list \<Rightarrow> NormalizedData list"

record ProcessingState =
  processors :: "(string, DataProcessor) jsmap"
  enrichers :: "(string, DataEnricher) jsmap"
  processingCallbacks :: "ProcessedData callback list"

text \<open>Decimal text of a number, as a template literal prints it.\<close>

fun decimal :: "nat \<Rightarrow> string" where
  "decimal n = (if n < 10 then [''0123456789'' ! n]
                else decimal (n div 10) @ [''0123456789'' ! (n mod 10)])"

declare decimal.simps [simp del]

definition env_name :: "EnvironmentType \<Rightarrow> string" where
  "env_name e = (case e of IT \<Rightarrow> ''IT'' | OT \<Rightarrow> ''OT'' | Cloud \<Rightarrow> ''Cloud'')"

definition source_type_name :: "SourceType \<Rightarrow> string" where
  "source_type_name t =
     (case t of SIEM \<Rightarrow> ''SIEM'' | IDS_IPS \<Rightarrow> ''IDS/IPS'' | Firewall \<Rightarrow> ''Firewall''
      | EDR \<Rightarrow> ''EDR'' | SCADA \<Rightarrow> ''SCADA'' | PLC \<Rightarrow> ''PLC'' | HMI \<Rightarrow> ''HMI''
      | CloudAPI \<Rightarrow> ''CloudAPI'' | Other \<Rightarrow> ''Other'')"

text \<open>
  The four built-in normalizers are the same \<open>data.map\<close> but for the prefix of the id and the
  \<open>environment\<close> property written into the copy of the record (none by the default one).
\<close>

definition normalizeItem ::
  "string \<Rightarrow> string option \<Rightarrow> NormalizeDraws \<Rightarrow> nat \<Rightarrow> RawRecord \<Rightarrow> NormalizedData" where
  "normalizeItem tag env dr i item =
     \<lparr>nd_id = tag @ id_stamp dr i,
      nd_timestamp = (case r_timestamp item of Some t \<Rightarrow> t | None \<Rightarrow> read_clock dr i),
      nd_source = \<lparr>src_id = str_or (r_sourceId item) ''unknown'',
                   src_name = str_or (r_sourceName item) ''Unknown Source'',
                   src_type = str_or (r_sourceType item) ''unknown''\<rparr>,
      nd_data = (case env of None \<Rightarrow> item | Some e \<Rightarrow> item\<lparr>r_environment := Some e\<rparr>),
      normalized = True,
      enriched = None,
      enrichments = None\<rparr>"

definition defaultProcessor :: DataProcessor where
  "defaultProcessor =
     \<lparr>normalize = (\<lambda>dr data'. map (\<lambda>(i, item). normalizeItem ''event-'' None dr i item)
                                  (enumerate 0 data'))\<rparr>"









definition onProcessedData :: "ProcessedData callback \<Rightarrow> ProcessingState \<Rightarrow> ProcessingState" where
  "onProcessedData callback s = s\<lparr>processingCallbacks := processingCallbacks s @ [callback]\<rparr>"


record ProcessingDraws =
  norm_draws :: NormalizeDraws
  enrich_draws :: EnrichDraws
  processed_at :: nat

text \<open>The loop over \<open>this.enrichers.values()\<close>.\<close>

fun enrichAll ::
  "DataEnricher list \<Rightarrow> EnvironmentType \<Rightarrow> string \<Rightarrow> EnrichDraws \<Rightarrow> NormalizedData list
     \<Rightarrow> NormalizedData list" where
  "enrichAll [] environment sourceType dr enrichedData = enrichedData"
| "enrichAll (enricher # rest) environment sourceType dr enrichedData =
     enrichAll rest environment sourceType dr
       (if canEnrich enricher environment sourceType then enrich enricher dr enrichedData
        else enrichedData)"

definition processData ::
  "ProcessingState \<Rightarrow> ProcessingDraws \<Rightarrow> EnvironmentType \<Rightarrow> string \<Rightarrow> RawRecord list
     \<Rightarrow> ProcessedData" where
  "processData s dr environment sourceType data' =
     (let processorKey = env_name environment @ '':'' @ sourceType;
          processor = (case map_get (processors s) processorKey of
                         Some p \<Rightarrow> p
                       | None \<Rightarrow> (case map_get (processors s) (env_name environment) of
                                    Some p \<Rightarrow> p
                                  | None \<Rightarrow> defaultProcessor));
          normalizedData = normalize processor (norm_draws dr) data';
          enrichedData = enrichAll (map_values (enrichers s)) environment sourceType
                           (enrich_draws dr) normalizedData
      in \<lparr>pd_environment = environment,
          pd_sourceType = sourceType,
          originalCount = length data',
          normalizedCount = length normalizedData,
          enrichedCount = length enrichedData,
          pd_data = enrichedData,
          pd_timestamp = processed_at dr\<rparr>)"

definition notifyProcessingCallbacks ::
  "ProcessingState \<Rightarrow> ProcessedData \<Rightarrow> ProcessedData NotifyLog outcome" where
  "notifyProcessingCallbacks s processedData =
     notifyLoop 0 (processingCallbacks s) processedData no_calls"

text \<open>
  handleNewData is the subscriber the processing service registers with the ingestion
  service. For an unknown source it warns and returns without notifying.
\<close>

definition handleNewData ::
  "RawRecord IngestionState \<Rightarrow> ProcessingState \<Rightarrow> ProcessingDraws \<Rightarrow> string \<Rightarrow> RawRecord list
     \<Rightarrow> ProcessedData NotifyLog option outcome" where
  "handleNewData ingestion s dr sourceId data' =
     (case map_get (dataSources ingestion) sourceId of
        None \<Rightarrow> Normal None
      | Some dataSource \<Rightarrow>
          (case notifyProcessingCallbacks s
                  (processData s dr (ds_environment dataSource)
                     (source_type_name (ds_type dataSource)) data') of
             Normal lg \<Rightarrow> Normal (Some lg)
           | Throws e \<Rightarrow> Throws e))"

section \<open>Analytics stage (AnalyticsService)\<close>

subsection \<open>Numbers\<close>

text \<open>
  A JavaScript number is an IEEE 754 binary64 value, and each arithmetic operation returns the
  exact result rounded to the nearest such value, ties to the even significand. A finite
  binary64 value is a rational number, so numbers are \<open>rat\<close> and the rounding is written out:
  \<open>fl q\<close> is the binary64 value nearest to \<open>q\<close>, for \<open>q\<close> in the normal range (all numbers of
  the risk computation are between 0 and 128). \<open>binade q\<close> is the exponent \<open>e\<close> with
  \<open>2^e \<le> q < 2^(e+1)\<close>; the significand has 53 bits. The literal \<open>0.3\<close> is \<open>fl (3 / 10)\<close>.
  Sums and products of integers below \<open>2^53\<close> are exact and are written without \<open>fl\<close>.
\<close>

definition pow2 :: "int \<Rightarrow> rat" where
  "pow2 e = (if 0 \<le> e then 2 ^ nat e else 1 / 2 ^ nat (- e))"

definition binade :: "rat \<Rightarrow> int" where
  "binade q = (case quotient_of q of (a, b) \<Rightarrow>
                 (let c = bitlen a - bitlen b in if pow2 c \<le> q then c else c - 1))"

definition round_even :: "rat \<Rightarrow> int" where
  "round_even x = (let f = \<lfloor>x\<rfloor>; r = x - of_int f in
                   if r < 1 / 2 then f else if 1 / 2 < r then f + 1
                   else if even f then f else f + 1)"

definition fl :: "rat \<Rightarrow> rat" where
  "fl q = (if q = 0 then 0
           else (let e = binade \<bar>q\<bar> - 52 in of_int (round_even (q / pow2 e)) * pow2 e))"

definition fmul :: "rat \<Rightarrow> rat \<Rightarrow> rat" where
  "fmul a b = fl (a * b)"

definition fadd :: "rat \<Rightarrow> rat \<Rightarrow> rat" where
  "fadd a b = fl (a + b)"



subsection \<open>Data\<close>

datatype Trend = Increasing | Decreasing | Stable

record Factors =
  vulnerabilities :: rat
  threats :: rat
  compliance :: rat
  exposure :: rat

text \<open>
  environmentType is typed \<open>EnvironmentType\<close> in the source, but the default engine stores
  the grouping key there (\<open>env as EnvironmentType\<close>), which is any string.
\<close>

record RiskScore =
  rs_id :: string
  rs_assetId :: "string option"
  environmentType :: "string option"
  overallScore :: rat
  factors :: Factors
  trend :: Trend
  calculatedAt :: nat

datatype AnomalyType =
  NetworkAnomaly | UserAnomaly | SystemAnomaly | ApplicationAnomaly | OtAnomaly | CloudAnomaly

datatype AnomalyStatus = AnomalyNew | AnomalyInvestigating | AnomalyResolved | FalsePositive

record Anomaly =
  an_id :: string
  an_assetId :: "string option"
  an_dataSourceId :: "string option"
  an_type :: AnomalyType
  an_description :: string
  an_severity :: Level
  confidence :: rat
  relatedEvents :: "string list"
  an_status :: AnomalyStatus
  detectedAt :: nat
  an_updatedAt :: nat

definition anomaly_type_name :: "AnomalyType \<Rightarrow> string" where
  "anomaly_type_name t =
     (case t of NetworkAnomaly \<Rightarrow> ''network'' | UserAnomaly \<Rightarrow> ''user''
      | SystemAnomaly \<Rightarrow> ''system'' | ApplicationAnomaly \<Rightarrow> ''application''
      | OtAnomaly \<Rightarrow> ''ot'' | CloudAnomaly \<Rightarrow> ''cloud'')"

definition level_name :: "Level \<Rightarrow> string" where
  "level_name l =
     (case l of Critical \<Rightarrow> ''critical'' | High \<Rightarrow> ''high'' | Medium \<Rightarrow> ''medium''
      | Low \<Rightarrow> ''low'')"

datatype ComplianceStatus = Compliant | NonCompliant | PartiallyCompliant | NotApplicable

definition compliance_status_name :: "ComplianceStatus \<Rightarrow> string" where
  "compliance_status_name st =
     (case st of Compliant \<Rightarrow> ''compliant'' | NonCompliant \<Rightarrow> ''non_compliant''
      | PartiallyCompliant \<Rightarrow> ''partially_compliant'' | NotApplicable \<Rightarrow> ''not_applicable'')"

record ComplianceControl =
  cc_id :: string
  cc_frameworkId :: string
  cc_controlId :: string
  cc_name :: string
  cc_description :: string
  requirements :: string
  cc_status :: ComplianceStatus
  lastAssessedAt :: nat

record ComplianceResult =
  compliant :: bool
  control :: "ComplianceControl option"
  details :: string

record AnalyticsResult =
  ar_environment :: EnvironmentType
  ar_sourceType :: string
  ar_timestamp :: nat
  ar_riskScores :: "RiskScore list"
  ar_anomalies :: "Anomaly list"
  ar_complianceResults :: "ComplianceResult list"

subsection \<open>Risk score engines\<close>

text \<open>
  What a risk engine reads of the outside world for one score: the four values of
  \<open>Math.floor(Math.random() * n)\<close>, the trend picked from
  \<^verbatim>\<open>['increasing', 'decreasing', 'stable']\<close>, \<open>Date.now()\<close> and \<open>new Date()\<close>.
  An engine is given the readings for the scores it makes, by position.
\<close>

record RiskDraws =
  vuln_draw :: nat
  threat_draw :: nat
  compliance_draw :: nat
  exposure_draw :: nat
  trend_draw :: Trend
  date_now :: nat
  new_date :: nat

type_synonym RiskScoreEngine = "(nat \<Rightarrow> RiskDraws) \<Rightarrow> NormalizedData list \<Rightarrow> RiskScore list"

text \<open>\<open>Math.min(100, Math.floor(Math.random() * n) + base)\<close>, the draw being the floor.\<close>

definition riskFactor :: "nat \<Rightarrow> rat \<Rightarrow> rat" where
  "riskFactor draw base = min 100 (of_nat draw + base)"

text \<open>\<open>Math.floor((v * w1) + (t * w2) + (c * w3) + (e * w4))\<close>, the sum taken from the left.\<close>

definition weightedScore :: "rat \<Rightarrow> rat \<Rightarrow> rat \<Rightarrow> rat \<Rightarrow> rat \<Rightarrow> rat \<Rightarrow> rat \<Rightarrow> rat \<Rightarrow> rat" where
  "weightedScore v w1 t w2 c w3 e w4 =
     of_int \<lfloor>fadd (fadd (fadd (fmul v w1) (fmul t w2)) (fmul c w3)) (fmul e w4)\<rfloor>"

text \<open>
  The default engine groups the records by \<open>item.data.environment || 'unknown'\<close> in an object
  and makes one score per property, in the order of \<open>Object.entries\<close>: the order in which the
  keys were first written (keys that are not array indices).
\<close>

definition environmentData :: "NormalizedData list \<Rightarrow> (string, NormalizedData list) jsmap" where
  "environmentData data' =
     fold (\<lambda>item m.
             (let env = str_or (r_environment (nd_data item)) ''unknown''
              in map_set m env ((case map_get m env of Some xs \<Rightarrow> xs | None \<Rightarrow> []) @ [item])))
          data' []"

definition defaultRiskScore :: "string \<Rightarrow> RiskDraws \<Rightarrow> RiskScore" where
  "defaultRiskScore env dr =
     (let vulnerabilityFactor = riskFactor (vuln_draw dr) 20;
          threatFactor = riskFactor (threat_draw dr) 10;
          complianceFactor = riskFactor (compliance_draw dr) 40;
          exposureFactor = riskFactor (exposure_draw dr) 30
      in \<lparr>rs_id = ''risk-'' @ env @ ''-'' @ decimal (date_now dr),
          rs_assetId = None,
          environmentType = Some env,
          overallScore = weightedScore vulnerabilityFactor (fl (3 / 10)) threatFactor (fl (3 / 10))
                           complianceFactor (fl (1 / 5)) exposureFactor (fl (1 / 5)),
          factors = \<lparr>vulnerabilities = vulnerabilityFactor, threats = threatFactor,
                     compliance = complianceFactor, exposure = exposureFactor\<rparr>,
          trend = trend_draw dr,
          calculatedAt = new_date dr\<rparr>)"


definition defaultRiskScoreEngine :: RiskScoreEngine where
  "defaultRiskScoreEngine draws data' =
     map (\<lambda>(i, (env, envData)). defaultRiskScore env (draws i))
         (enumerate 0 (environmentData data'))"

definition itRiskScoreEngine :: RiskScoreEngine where
  "itRiskScoreEngine draws data' =
     (let dr = draws 0;
          vulnerabilityFactor = riskFactor (vuln_draw dr) 20;
          threatFactor = riskFactor (threat_draw dr) 30;
          complianceFactor = riskFactor (compliance_draw dr) 40;
          exposureFactor = riskFactor (exposure_draw dr) 30
      in [\<lparr>rs_id = ''risk-IT-'' @ decimal (date_now dr),
           rs_assetId = None,
           environmentType = Some ''IT'',
           overallScore = weightedScore vulnerabilityFactor (fl (3 / 10)) threatFactor (fl (3 / 10))
                            complianceFactor (fl (1 / 5)) exposureFactor (fl (1 / 5)),
           factors = \<lparr>vulnerabilities = vulnerabilityFactor, threats = threatFactor,
                      compliance = complianceFactor, exposure = exposureFactor\<rparr>,
           trend = trend_draw dr,
           calculatedAt = new_date dr\<rparr>])"

definition otRiskScoreEngine :: RiskScoreEngine where
  "otRiskScoreEngine draws data' =
     (let dr = draws 0;
          vulnerabilityFactor = riskFactor (vuln_draw dr) 10;
          threatFactor = riskFactor (threat_draw dr) 20;
          complianceFactor = riskFactor (compliance_draw dr) 30;
          exposureFactor = riskFactor (exposure_draw dr) 20
      in [\<lparr>rs_id = ''risk-OT-'' @ decimal (date_now dr),
           rs_assetId = None,
           environmentType = Some ''OT'',
           overallScore = weightedScore vulnerabilityFactor (fl (1 / 5)) threatFactor (fl (1 / 5))
                            complianceFactor (fl (3 / 10)) exposureFactor (fl (3 / 10)),
           factors = \<lparr>vulnerabilities = vulnerabilityFactor, threats = threatFactor,
                      compliance = complianceFactor, exposure = exposureFactor\<rparr>,
           trend = trend_draw dr,
           calculatedAt = new_date dr\<rparr>])"

definition cloudRiskScoreEngine :: RiskScoreEngine where
  "cloudRiskScoreEngine draws data' =
     (let dr = draws 0;
          vulnerabilityFactor = riskFactor (vuln_draw dr) 20;
          threatFactor = riskFactor (threat_draw dr) 20;
          complianceFactor = riskFactor (compliance_draw dr) 30;
          exposureFactor = riskFactor (exposure_draw dr) 40
      in [\<lparr>rs_id = ''risk-Cloud-'' @ decimal (date_now dr),
           rs_assetId = None,
           environmentType = Some ''Cloud'',
           overallScore = weightedScore vulnerabilityFactor (fl (1 / 5)) threatFactor (fl (3 / 10))
                            complianceFactor (fl (3 / 10)) exposureFactor (fl (1 / 5)),
           factors = \<lparr>vulnerabilities = vulnerabilityFactor, threats = threatFactor,
                      compliance = complianceFactor, exposure = exposureFactor\<rparr>,
           trend = trend_draw dr,
           calculatedAt = new_date dr\<rparr>])"

subsection \<open>Anomaly detectors and compliance monitors\<close>

text \<open>
  What the default detector reads for the record at position \<open>i\<close>: whether
  \<open>Math.random() < 0.05\<close>, the text of
  \<^verbatim>\<open>${Date.now()}-${Math.random().toString(36).substr(2, 9)}\<close>, the type and the severity
  picked from the two arrays, \<open>Math.floor(Math.random() * 30)\<close> and \<open>new Date()\<close>.
\<close>

record DetectDraws =
  detected :: bool
  anomaly_stamp :: string
  type_draw :: AnomalyType
  severity_draw :: Level
  confidence_draw :: nat
  detect_date :: nat

type_synonym AnomalyDetector = "(nat \<Rightarrow> DetectDraws) \<Rightarrow> NormalizedData list \<Rightarrow> Anomaly list"

definition defaultAnomalyDetector :: AnomalyDetector where
  "defaultAnomalyDetector draws data' =
     concat (map (\<lambda>(i, item).
       if detected (draws i)
       then [\<lparr>an_id = ''anomaly-'' @ anomaly_stamp (draws i),
              an_assetId = None,
              an_dataSourceId = Some (src_id (nd_source item)),
              an_type = type_draw (draws i),
              an_description = ''Unusual activity detected in '' @ src_name (nd_source item),
              an_severity = severity_draw (draws i),
              confidence = of_nat (confidence_draw (draws i)) + 70,
              relatedEvents = [nd_id item],
              an_status = AnomalyNew,
              detectedAt = detect_date (draws i),
              an_updatedAt = detect_date (draws i)\<rparr>]
       else []) (enumerate 0 data'))"

text \<open>
  The catalogue of the default monitor is a constant array of four controls; the draw is the
  control picked from it.
\<close>

datatype CatalogueControl = ID_AM_1 | ID_AM_2 | A_8_1_1 | SR_1_1

definition catalogue_frameworkId :: "CatalogueControl \<Rightarrow> string" where
  "catalogue_frameworkId c =
     (case c of ID_AM_1 \<Rightarrow> ''nist-csf'' | ID_AM_2 \<Rightarrow> ''nist-csf'' | A_8_1_1 \<Rightarrow> ''iso-27001''
      | SR_1_1 \<Rightarrow> ''iec-62443'')"

definition catalogue_controlId :: "CatalogueControl \<Rightarrow> string" where
  "catalogue_controlId c =
     (case c of ID_AM_1 \<Rightarrow> ''ID.AM-1'' | ID_AM_2 \<Rightarrow> ''ID.AM-2'' | A_8_1_1 \<Rightarrow> ''A.8.1.1''
      | SR_1_1 \<Rightarrow> ''SR 1.1'')"

definition catalogue_name :: "CatalogueControl \<Rightarrow> string" where
  "catalogue_name c =
     (case c of ID_AM_1 \<Rightarrow> ''Physical devices inventory''
      | ID_AM_2 \<Rightarrow> ''Software platforms inventory''
      | A_8_1_1 \<Rightarrow> ''Asset inventory''
      | SR_1_1 \<Rightarrow> ''Security policy and procedures'')"

record MonitorDraws =
  checked :: bool
  control_draw :: CatalogueControl
  status_draw :: ComplianceStatus
  assessed_date :: nat

type_synonym ComplianceMonitor = "MonitorDraws \<Rightarrow> NormalizedData list \<Rightarrow> ComplianceResult list"

definition defaultComplianceMonitor :: ComplianceMonitor where
  "defaultComplianceMonitor dr data' =
     (if length data' > 0 \<and> checked dr
      then (let c = control_draw dr; st = status_draw dr
            in [\<lparr>compliant = (st = Compliant),
                 control = Some
                   \<lparr>cc_id = catalogue_frameworkId c @ ''-'' @ catalogue_controlId c,
                    cc_frameworkId = catalogue_frameworkId c,
                    cc_controlId = catalogue_controlId c,
                    cc_name = catalogue_name c,
                    cc_description = ''Compliance control for '' @ catalogue_name c,
                    requirements = ''Requirements for '' @ catalogue_name c,
                    cc_status = st,
                    lastAssessedAt = assessed_date dr\<rparr>,
                 details = ''Compliance check for '' @ catalogue_name c @ '' resulted in ''
                           @ compliance_status_name st\<rparr>])
      else [])"

subsection \<open>The service\<close>

record AnalyticsState =
  riskScoreEngines :: "(string, RiskScoreEngine) jsmap"
  anomalyDetectors :: "(string, AnomalyDetector) jsmap"
  complianceMonitors :: "(string, ComplianceMonitor) jsmap"
  analyticsCallbacks :: "AnalyticsResult callback list"
  riskScores :: "(string, RiskScore) jsmap"
  anomalies :: "(string, Anomaly) jsmap"
  complianceStatus :: "(string, ComplianceControl) jsmap"

record AnalyticsDraws =
  risk_draws :: "nat \<Rightarrow> RiskDraws"
  detect_draws :: "nat \<Rightarrow> DetectDraws"
  monitor_draws :: MonitorDraws
  analysed_at :: nat

definition registerRiskScoreEngine :: "string \<Rightarrow> RiskScoreEngine \<Rightarrow> AnalyticsState \<Rightarrow> AnalyticsState" where
  "registerRiskScoreEngine key engine s =
     s\<lparr>riskScoreEngines := map_set (riskScoreEngines s) key engine\<rparr>"

definition registerAnomalyDetector :: "string \<Rightarrow> AnomalyDetector \<Rightarrow> AnalyticsState \<Rightarrow> AnalyticsState" where
  "registerAnomalyDetector key detector s =
     s\<lparr>anomalyDetectors := map_set (anomalyDetectors s) key detector\<rparr>"

definition registerComplianceMonitor :: "string \<Rightarrow> ComplianceMonitor \<Rightarrow> AnalyticsState \<Rightarrow> AnalyticsState" where
  "registerComplianceMonitor key monitor s =
     s\<lparr>complianceMonitors := map_set (complianceMonitors s) key monitor\<rparr>"

definition onAnalyticsResult :: "AnalyticsResult callback \<Rightarrow> AnalyticsState \<Rightarrow> AnalyticsState" where
  "onAnalyticsResult callback s = s\<lparr>analyticsCallbacks := analyticsCallbacks s @ [callback]\<rparr>"

text \<open>The service as the module leaves it: the IT, OT and Cloud risk engines registered.\<close>

definition analyticsService :: AnalyticsState where
  "analyticsService =
     registerRiskScoreEngine ''Cloud'' cloudRiskScoreEngine
       (registerRiskScoreEngine ''OT'' otRiskScoreEngine
         (registerRiskScoreEngine ''IT'' itRiskScoreEngine
           \<lparr>riskScoreEngines = [], anomalyDetectors = [], complianceMonitors = [],
            analyticsCallbacks = [], riskScores = [], anomalies = [], complianceStatus = []\<rparr>))"

text \<open>
  \<open>this.m.get(key) || this.m.get(environment) || fallback\<close>: an engine is an object, hence
  truthy when present.
\<close>

definition selectEngine :: "(string, 'e) jsmap \<Rightarrow> EnvironmentType \<Rightarrow> string \<Rightarrow> 'e \<Rightarrow> 'e" where
  "selectEngine m environment sourceType fallback =
     (case map_get m (env_name environment @ '':'' @ sourceType) of
        Some e \<Rightarrow> e
      | None \<Rightarrow> (case map_get m (env_name environment) of Some e \<Rightarrow> e | None \<Rightarrow> fallback))"

text \<open>The loop \<open>for (const score of newScores) { this.riskScores.set(score.id, score); .. }\<close>.\<close>

fun cacheScores :: "RiskScore list \<Rightarrow> (string, RiskScore) jsmap \<Rightarrow> (string, RiskScore) jsmap" where
  "cacheScores [] cache = cache"
| "cacheScores (score # newScores) cache = cacheScores newScores (map_set cache (rs_id score) score)"

definition calculateRiskScores ::
  "AnalyticsState \<Rightarrow> (nat \<Rightarrow> RiskDraws) \<Rightarrow> EnvironmentType \<Rightarrow> string \<Rightarrow> NormalizedData list
     \<Rightarrow> AnalyticsState \<times> RiskScore list" where
  "calculateRiskScores s draws environment sourceType data' =
     (let engine = selectEngine (riskScoreEngines s) environment sourceType defaultRiskScoreEngine;
          newScores = engine draws data'
      in (s\<lparr>riskScores := cacheScores newScores (riskScores s)\<rparr>, newScores))"

fun cacheAnomalies :: "Anomaly list \<Rightarrow> (string, Anomaly) jsmap \<Rightarrow> (string, Anomaly) jsmap" where
  "cacheAnomalies [] cache = cache"
| "cacheAnomalies (anomaly # newAnomalies) cache =
     cacheAnomalies newAnomalies (map_set cache (an_id anomaly) anomaly)"

definition detectAnomalies ::
  "AnalyticsState \<Rightarrow> (nat \<Rightarrow> DetectDraws) \<Rightarrow> EnvironmentType \<Rightarrow> string \<Rightarrow> NormalizedData list
     \<Rightarrow> AnalyticsState \<times> Anomaly list" where
  "detectAnomalies s draws environment sourceType data' =
     (let detector = selectEngine (anomalyDetectors s) environment sourceType defaultAnomalyDetector;
          newAnomalies = detector draws data'
      in (s\<lparr>anomalies := cacheAnomalies newAnomalies (anomalies s)\<rparr>, newAnomalies))"

fun cacheControls ::
  "ComplianceResult list \<Rightarrow> (string, ComplianceControl) jsmap \<Rightarrow> (string, ComplianceControl) jsmap" where
  "cacheControls [] cache = cache"
| "cacheControls (result # results) cache =
     cacheControls results
       (case control result of Some c \<Rightarrow> map_set cache (cc_id c) c | None \<Rightarrow> cache)"

definition checkCompliance ::
  "AnalyticsState \<Rightarrow> MonitorDraws \<Rightarrow> EnvironmentType \<Rightarrow> string \<Rightarrow> NormalizedData list
     \<Rightarrow> AnalyticsState \<times> ComplianceResult list" where
  "checkCompliance s dr environment sourceType data' =
     (let monitor = selectEngine (complianceMonitors s) environment sourceType defaultComplianceMonitor;
          results = monitor dr data'
      in (s\<lparr>complianceStatus := cacheControls results (complianceStatus s)\<rparr>, results))"

definition analyzeData :: "AnalyticsState \<Rightarrow> AnalyticsDraws \<Rightarrow> ProcessedData \<Rightarrow> AnalyticsState \<times> AnalyticsResult" where
  "analyzeData s dr processedData =
     (let environment = pd_environment processedData;
          sourceType = pd_sourceType processedData;
          data' = pd_data processedData;
          (s1, riskScores') = calculateRiskScores s (risk_draws dr) environment sourceType data';
          (s2, anomalies') = detectAnomalies s1 (detect_draws dr) environment sourceType data';
          (s3, complianceResults) = checkCompliance s2 (monitor_draws dr) environment sourceType data'
      in (s3, \<lparr>ar_environment = environment,
               ar_sourceType = sourceType,
               ar_timestamp = analysed_at dr,
               ar_riskScores = riskScores',
               ar_anomalies = anomalies',
               ar_complianceResults = complianceResults\<rparr>))"

definition notifyAnalyticsCallbacks ::
  "AnalyticsState \<Rightarrow> AnalyticsResult \<Rightarrow> AnalyticsResult NotifyLog outcome" where
  "notifyAnalyticsCallbacks s analyticsResult =
     notifyLoop 0 (analyticsCallbacks s) analyticsResult no_calls"

definition handleProcessedData ::
  "AnalyticsState \<Rightarrow> AnalyticsDraws \<Rightarrow> ProcessedData
     \<Rightarrow> AnalyticsState \<times> AnalyticsResult NotifyLog outcome" where
  "handleProcessedData s dr processedData =
     (let (s', analyticsResult) = analyzeData s dr processedData
      in (s', notifyAnalyticsCallbacks s' analyticsResult))"

section \<open>Orchestration stage (OrchestrationService)\<close>

subsection \<open>Data\<close>

datatype PlaybookType = AnomalyPlaybook | CompliancePlaybook | IncidentPlaybook | ScheduledPlaybook

text \<open>
  Every property of a trigger is optional here: the interface requires \<open>type\<close>, but the
  triggers of the registered compliance playbook have a \<open>frameworkId\<close> only. The creation
  dates of playbooks and policies and the parameters of steps and actions are never read and
  are left out.
\<close>

record PlaybookTrigger =
  trig_type :: "string option"
  trig_severity :: "string option"
  trig_frameworkId :: "string option"
  trig_controlId :: "string option"

record PlaybookStep =
  step_name :: string
  step_description :: string
  step_action :: string
  critical :: bool

record Playbook =
  pb_id :: string
  pb_name :: string
  pb_description :: string
  pb_type :: PlaybookType
  triggers :: "PlaybookTrigger list"
  steps :: "PlaybookStep list"

datatype PolicyStatus = PolicyActive | PolicyInactive | PolicyDraft

datatype RuleStatus = RuleActive | RuleInactive

record PolicyAction =
  pa_id :: string
  pa_ruleId :: string
  pa_type :: string

record PolicyRule =
  rule_id :: string
  rule_policyId :: string
  rule_name :: string
  rule_description :: string
  rule_condition :: string
  rule_actions :: "PolicyAction list"
  rule_status :: RuleStatus

text \<open>The environment of a policy is an EnvironmentType or \<open>'all'\<close>, here \<open>None\<close>.\<close>

record Policy =
  pol_id :: string
  pol_name :: string
  pol_description :: string
  pol_type :: string
  pol_environment :: "EnvironmentType option"
  rules :: "PolicyRule list"
  pol_status :: PolicyStatus

datatype IncidentStatus =
  IncidentNew | Assigned | Investigating | Contained | Remediated | Resolved | Closed

datatype EventType = Detection | Assignment | StatusChange | Comment | Action | Evidence

record IncidentEvent =
  ev_id :: string
  ev_incidentId :: string
  ev_type :: EventType
  ev_description :: string
  ev_user :: "string option"
  ev_timestamp :: nat

record Incident =
  inc_id :: string
  title :: string
  inc_description :: string
  inc_severity :: Level
  inc_status :: IncidentStatus
  assignedTo :: "string option"
  affectedAssets :: "string list"
  relatedAnomalies :: "string list"
  timeline :: "IncidentEvent list"
  createdAt :: nat
  inc_updatedAt :: nat
  resolvedAt :: "nat option"

text \<open>
  PlaybookActionResult and PolicyActionResult differ in the name of the first property
  (\<open>name\<close>, \<open>type\<close>) only; \<open>act_label\<close> is that property.
\<close>

record ActionResult =
  act_label :: string
  act_success :: bool
  act_error :: "string option"
  act_timestamp :: nat

datatype ResultType = PlaybookResult | PolicyResult

datatype Context =
  AnomalyContext Anomaly | ComplianceContext ComplianceResult | AnalyticsContext AnalyticsResult

record OrchestrationResult =
  or_type :: ResultType
  or_name :: string
  or_success :: bool
  actions :: "ActionResult list"
  startTime :: nat
  endTime :: nat
  duration :: int
  or_context :: Context

record OrchestrationState =
  playbooks :: "(string, Playbook) jsmap"
  policies :: "(string, Policy) jsmap"
  incidents :: "(string, Incident) jsmap"
  orchestrationCallbacks :: "OrchestrationResult callback list"

type_synonym Emitted = "OrchestrationResult NotifyLog list"

subsection \<open>What the service reads of the clock and of \<open>Math.random()\<close>\<close>

text \<open>
  For one step or action: whether \<open>Math.random() > 0.05\<close>, and \<open>new Date()\<close>. For one
  execution: the start, the readings of the steps by position, the end.
\<close>

record StepDraws =
  succeeded :: bool
  step_date :: nat

record ExecDraws =
  exec_start :: nat
  step_draws :: "nat \<Rightarrow> StepDraws"
  exec_end :: nat

text \<open>
  For one call of createOrUpdateIncident. A stamp is the text of
  \<^verbatim>\<open>${Date.now()}-${Math.random().toString(36).substr(2, 9)}\<close> (of \<open>Date.now() + 1\<close> for
  the second event of a new incident). The new incident's id and the \<open>incidentId\<close> of each of
  its two events are three separate evaluations of that template.
\<close>

record IncidentDraws =
  update_date :: nat
  event_stamp :: string
  event_date :: nat
  incident_stamp :: string
  detection_stamp :: string
  detection_incident_stamp :: string
  detection_date :: nat
  action_stamp :: string
  action_incident_stamp :: string
  action_date :: nat
  created_date :: nat
  created_update_date :: nat

record RespondDraws =
  exec_draws :: ExecDraws
  incident_draws :: IncidentDraws

record RuleDraws =
  condition_met :: bool
  rule_exec :: ExecDraws

record OrchestrationDraws =
  anomaly_draws :: "nat \<Rightarrow> RespondDraws"
  compliance_draws :: "nat \<Rightarrow> ExecDraws"
  policy_draws :: "nat \<Rightarrow> nat \<Rightarrow> RuleDraws"

subsection \<open>Playbooks\<close>

definition registerPlaybook :: "Playbook \<Rightarrow> OrchestrationState \<Rightarrow> OrchestrationState" where
  "registerPlaybook playbook s = s\<lparr>playbooks := map_set (playbooks s) (pb_id playbook) playbook\<rparr>"

definition registerPolicy :: "Policy \<Rightarrow> OrchestrationState \<Rightarrow> OrchestrationState" where
  "registerPolicy policy s = s\<lparr>policies := map_set (policies s) (pol_id policy) policy\<rparr>"

definition onOrchestrationResult ::
  "OrchestrationResult callback \<Rightarrow> OrchestrationState \<Rightarrow> OrchestrationState" where
  "onOrchestrationResult callback s =
     s\<lparr>orchestrationCallbacks := orchestrationCallbacks s @ [callback]\<rparr>"

definition notifyOrchestrationCallbacks ::
  "OrchestrationState \<Rightarrow> OrchestrationResult \<Rightarrow> OrchestrationResult NotifyLog outcome" where
  "notifyOrchestrationCallbacks s result = notifyLoop 0 (orchestrationCallbacks s) result no_calls"

definition findPlaybookForAnomaly :: "OrchestrationState \<Rightarrow> Anomaly \<Rightarrow> Playbook option" where
  "findPlaybookForAnomaly s anomaly =
     array_find (\<lambda>playbook.
         pb_type playbook = AnomalyPlaybook \<and>
         list_ex (\<lambda>trigger.
             trig_type trigger = Some (anomaly_type_name (an_type anomaly)) \<and>
             trig_severity trigger = Some (level_name (an_severity anomaly)))
           (triggers playbook))
       (map_values (playbooks s))"

text \<open>
  \<open>trigger.frameworkId === complianceResult.control?.frameworkId\<close>: both sides may be
  undefined.
\<close>

definition findPlaybookForComplianceIssue ::
  "OrchestrationState \<Rightarrow> ComplianceResult \<Rightarrow> Playbook option" where
  "findPlaybookForComplianceIssue s complianceResult =
     array_find (\<lambda>playbook.
         pb_type playbook = CompliancePlaybook \<and>
         list_ex (\<lambda>trigger.
             trig_frameworkId trigger = map_option cc_frameworkId (control complianceResult))
           (triggers playbook))
       (map_values (playbooks s))"

text \<open>\<open>error instanceof Error ? error.message : 'Unknown error'\<close>\<close>

definition error_message :: "error \<Rightarrow> string" where
  "error_message e = (case e of Error m \<Rightarrow> m | NonError \<Rightarrow> ''Unknown error'')"

text \<open>simulateActionExecution has no statement that throws: it always completes.\<close>

definition simulateActionExecution :: "PlaybookStep \<Rightarrow> Context \<Rightarrow> StepDraws \<Rightarrow> ActionResult outcome" where
  "simulateActionExecution step ctx dr =
     Normal \<lparr>act_label = step_name step,
             act_success = succeeded dr,
             act_error = (if succeeded dr then None else Some ''Simulated failure''),
             act_timestamp = step_date dr\<rparr>"

text \<open>
  The loop of executePlaybook over \<open>playbook.steps\<close>, from the step at position \<open>i\<close>, with
  the action results pushed so far. Each \<open>break\<close> returns what has been pushed.
\<close>

fun executeSteps ::
  "nat \<Rightarrow> (nat \<Rightarrow> StepDraws) \<Rightarrow> Context \<Rightarrow> PlaybookStep list \<Rightarrow> ActionResult list
     \<Rightarrow> ActionResult list" where
  "executeSteps i draws ctx [] acts = acts"
| "executeSteps i draws ctx (step # rest) acts =
     (case simulateActionExecution step ctx (draws i) of
        Normal actionResult \<Rightarrow>
          (let acts' = acts @ [actionResult]
           in if \<not> act_success actionResult \<and> critical step then acts'
              else executeSteps (Suc i) draws ctx rest acts')
      | Throws e \<Rightarrow>
          (let acts' = acts @ [\<lparr>act_label = step_name step, act_success = False,
                                 act_error = Some (error_message e),
                                 act_timestamp = step_date (draws i)\<rparr>]
           in if critical step then acts'
              else executeSteps (Suc i) draws ctx rest acts'))"

definition executePlaybook :: "Playbook \<Rightarrow> Context \<Rightarrow> ExecDraws \<Rightarrow> OrchestrationResult" where
  "executePlaybook playbook ctx dr =
     (let acts = executeSteps 0 (step_draws dr) ctx (steps playbook) []
      in \<lparr>or_type = PlaybookResult,
          or_name = pb_name playbook,
          or_success = list_all act_success acts,
          actions = acts,
          startTime = exec_start dr,
          endTime = exec_end dr,
          duration = int (exec_end dr) - int (exec_start dr),
          or_context = ctx\<rparr>)"

subsection \<open>Incidents\<close>

text \<open>
  The three object literals of createOrUpdateIncident: the event appended to an existing
  incident, the id of a new incident, and the new incident with its two events.
\<close>

definition actionEvent :: "IncidentDraws \<Rightarrow> Incident \<Rightarrow> OrchestrationResult \<Rightarrow> IncidentEvent" where
  "actionEvent dr existingIncident playbookResult =
     \<lparr>ev_id = ''event-'' @ event_stamp dr,
      ev_incidentId = inc_id existingIncident,
      ev_type = Action,
      ev_description = ''Executed playbook: '' @ or_name playbookResult,
      ev_user = None,
      ev_timestamp = event_date dr\<rparr>"

definition newIncidentId :: "IncidentDraws \<Rightarrow> string" where
  "newIncidentId dr = ''incident-'' @ incident_stamp dr"

definition newIncident :: "IncidentDraws \<Rightarrow> Anomaly \<Rightarrow> OrchestrationResult \<Rightarrow> Incident" where
  "newIncident dr anomaly playbookResult =
     \<lparr>inc_id = newIncidentId dr,
      title = ''Incident: '' @ an_description anomaly,
      inc_description = ''Incident created from anomaly: '' @ an_description anomaly,
      inc_severity = an_severity anomaly,
      inc_status = IncidentNew,
      assignedTo = None,
      affectedAssets = [],
      relatedAnomalies = [an_id anomaly],
      timeline =
        [\<lparr>ev_id = ''event-'' @ detection_stamp dr,
          ev_incidentId = ''incident-'' @ detection_incident_stamp dr,
          ev_type = Detection,
          ev_description = ''Anomaly detected: '' @ an_description anomaly,
          ev_user = None,
          ev_timestamp = detection_date dr\<rparr>,
         \<lparr>ev_id = ''event-'' @ action_stamp dr,
          ev_incidentId = ''incident-'' @ action_incident_stamp dr,
          ev_type = Action,
          ev_description = ''Executed playbook: '' @ or_name playbookResult,
          ev_user = None,
          ev_timestamp = action_date dr\<rparr>],
      createdAt = created_date dr,
      inc_updatedAt = created_update_date dr,
      resolvedAt = None\<rparr>"

definition updatedIncident :: "IncidentDraws \<Rightarrow> Incident \<Rightarrow> OrchestrationResult \<Rightarrow> Incident" where
  "updatedIncident dr existingIncident playbookResult =
     existingIncident
       \<lparr>inc_updatedAt := update_date dr,
        timeline := timeline existingIncident @ [actionEvent dr existingIncident playbookResult]\<rparr>"

definition createOrUpdateIncident ::
  "IncidentDraws \<Rightarrow> Anomaly \<Rightarrow> OrchestrationResult \<Rightarrow> OrchestrationState \<Rightarrow> OrchestrationState" where
  "createOrUpdateIncident dr anomaly playbookResult s =
     (case array_find (\<lambda>incident. an_id anomaly \<in> set (relatedAnomalies incident))
             (map_values (incidents s)) of
        Some existingIncident \<Rightarrow>
          (let updatedIncident = updatedIncident dr existingIncident playbookResult
           in s\<lparr>incidents := map_set (incidents s) (inc_id existingIncident) updatedIncident\<rparr>)
      | None \<Rightarrow>
          (let newIncident = newIncident dr anomaly playbookResult
           in s\<lparr>incidents := map_set (incidents s) (inc_id newIncident) newIncident\<rparr>))"

definition updateIncident :: "Incident \<Rightarrow> nat \<Rightarrow> OrchestrationState \<Rightarrow> OrchestrationState" where
  "updateIncident incident now s =
     s\<lparr>incidents := map_set (incidents s) (inc_id incident) (incident\<lparr>inc_updatedAt := now\<rparr>)\<rparr>"

text \<open>The event passed to addIncidentEvent: an IncidentEvent without id and incidentId.\<close>

record EventInput =
  in_type :: EventType
  in_description :: string
  in_user :: "string option"
  in_timestamp :: nat

definition addIncidentEvent ::
  "string \<Rightarrow> EventInput \<Rightarrow> string \<Rightarrow> nat \<Rightarrow> OrchestrationState
     \<Rightarrow> OrchestrationState \<times> unit outcome" where
  "addIncidentEvent incidentId event stamp now s =
     (case map_get (incidents s) incidentId of
        None \<Rightarrow> (s, Throws (Error (''Incident with ID '' @ incidentId @ '' not found'')))
      | Some incident \<Rightarrow>
          (let newEvent = \<lparr>ev_id = ''event-'' @ stamp,
                           ev_incidentId = incidentId,
                           ev_type = in_type event,
                           ev_description = in_description event,
                           ev_user = in_user event,
                           ev_timestamp = in_timestamp event\<rparr>
           in (s\<lparr>incidents := map_set (incidents s) incidentId
                    (incident\<lparr>timeline := timeline incident @ [newEvent],
                              inc_updatedAt := now\<rparr>)\<rparr>, Normal ())))"

definition getIncidents :: "OrchestrationState \<Rightarrow> Incident list" where
  "getIncidents s = map_values (incidents s)"

definition getIncident :: "OrchestrationState \<Rightarrow> string \<Rightarrow> Incident option" where
  "getIncident s i = map_get (incidents s) i"

text \<open>
  The stored incidents whose relatedAnomalies contains an anomaly id, in the order of the
  store. A store built by the service has distinct keys, as every \<open>Map\<close> has, and holds each
  incident under its own id, as each of the three calls of \<open>this.incidents.set\<close> writes it.
\<close>

definition referencing :: "string \<Rightarrow> OrchestrationState \<Rightarrow> Incident list" where
  "referencing anomalyId s =
     filter (\<lambda>incident. anomalyId \<in> set (relatedAnomalies incident)) (getIncidents s)"

definition timestamps :: "Incident \<Rightarrow> nat list" where
  "timestamps incident = map ev_timestamp (timeline incident)"

definition store_ok :: "OrchestrationState \<Rightarrow> bool" where
  "store_ok s \<longleftrightarrow>
     distinct (map fst (incidents s)) \<and> list_all (\<lambda>(k, incident). inc_id incident = k) (incidents s)"

subsection \<open>Responses\<close>

text \<open>
  A response changes the service and notifies the subscribers. Its result is the state it
  leaves and either the notifications made or the exception that left it.
\<close>

definition respondToAnomaly ::
  "RespondDraws \<Rightarrow> Anomaly \<Rightarrow> OrchestrationState \<Rightarrow> OrchestrationState \<times> Emitted outcome" where
  "respondToAnomaly dr anomaly s =
     (case findPlaybookForAnomaly s anomaly of
        Some playbook \<Rightarrow>
          (let result = executePlaybook playbook (AnomalyContext anomaly) (exec_draws dr);
               s' = createOrUpdateIncident (incident_draws dr) anomaly result s
           in case notifyOrchestrationCallbacks s' result of
                Normal lg \<Rightarrow> (s', Normal [lg])
              | Throws e \<Rightarrow> (s', Throws e))
      | None \<Rightarrow> (s, Normal []))"

definition respondToComplianceIssue ::
  "ExecDraws \<Rightarrow> ComplianceResult \<Rightarrow> OrchestrationState \<Rightarrow> Emitted outcome" where
  "respondToComplianceIssue dr complianceResult s =
     (case findPlaybookForComplianceIssue s complianceResult of
        Some playbook \<Rightarrow>
          (let result = executePlaybook playbook (ComplianceContext complianceResult) dr
           in case notifyOrchestrationCallbacks s result of
                Normal lg \<Rightarrow> Normal [lg]
              | Throws e \<Rightarrow> Throws e)
      | None \<Rightarrow> Normal [])"

text \<open>The loop of handleAnalyticsResult over the anomalies, from position \<open>i\<close>.\<close>

fun respondToAnomalies ::
  "nat \<Rightarrow> (nat \<Rightarrow> RespondDraws) \<Rightarrow> Anomaly list \<Rightarrow> OrchestrationState
     \<Rightarrow> OrchestrationState \<times> Emitted outcome" where
  "respondToAnomalies i draws [] s = (s, Normal [])"
| "respondToAnomalies i draws (anomaly # rest) s =
     (if an_severity anomaly = Critical \<or> an_severity anomaly = High
      then (case respondToAnomaly (draws i) anomaly s of
              (s', Throws e) \<Rightarrow> (s', Throws e)
            | (s', Normal lg) \<Rightarrow>
                (case respondToAnomalies (Suc i) draws rest s' of
                   (s'', Throws e) \<Rightarrow> (s'', Throws e)
                 | (s'', Normal lgs) \<Rightarrow> (s'', Normal (lg @ lgs))))
      else respondToAnomalies (Suc i) draws rest s)"

text \<open>The loop over the compliance results.\<close>

fun respondToComplianceIssues ::
  "nat \<Rightarrow> (nat \<Rightarrow> ExecDraws) \<Rightarrow> ComplianceResult list \<Rightarrow> OrchestrationState \<Rightarrow> Emitted outcome" where
  "respondToComplianceIssues i draws [] s = Normal []"
| "respondToComplianceIssues i draws (complianceResult # rest) s =
     (if \<not> compliant complianceResult \<and> control complianceResult \<noteq> None
      then (case respondToComplianceIssue (draws i) complianceResult s of
              Throws e \<Rightarrow> Throws e
            | Normal lg \<Rightarrow>
                (case respondToComplianceIssues (Suc i) draws rest s of
                   Throws e \<Rightarrow> Throws e
                 | Normal lgs \<Rightarrow> Normal (lg @ lgs)))
      else respondToComplianceIssues (Suc i) draws rest s)"

subsection \<open>Policies\<close>

text \<open>evaluateRuleCondition is \<open>Math.random() < 0.2\<close>: the draw \<open>condition_met\<close>.\<close>

definition simulatePolicyActionExecution :: "PolicyAction \<Rightarrow> Context \<Rightarrow> StepDraws \<Rightarrow> ActionResult outcome" where
  "simulatePolicyActionExecution action ctx dr =
     Normal \<lparr>act_label = pa_type action,
             act_success = succeeded dr,
             act_error = (if succeeded dr then None else Some ''Simulated failure''),
             act_timestamp = step_date dr\<rparr>"

fun executeActions ::
  "nat \<Rightarrow> (nat \<Rightarrow> StepDraws) \<Rightarrow> Context \<Rightarrow> PolicyAction list \<Rightarrow> ActionResult list
     \<Rightarrow> ActionResult list" where
  "executeActions i draws ctx [] acts = acts"
| "executeActions i draws ctx (action # rest) acts =
     (case simulatePolicyActionExecution action ctx (draws i) of
        Normal actionResult \<Rightarrow> executeActions (Suc i) draws ctx rest (acts @ [actionResult])
      | Throws e \<Rightarrow>
          executeActions (Suc i) draws ctx rest
            (acts @ [\<lparr>act_label = pa_type action, act_success = False,
                       act_error = Some (error_message e),
                       act_timestamp = step_date (draws i)\<rparr>]))"

definition executeRuleActions :: "Policy \<Rightarrow> PolicyRule \<Rightarrow> Context \<Rightarrow> ExecDraws \<Rightarrow> OrchestrationResult" where
  "executeRuleActions policy rule ctx dr =
     (let acts = executeActions 0 (step_draws dr) ctx (rule_actions rule) []
      in \<lparr>or_type = PolicyResult,
          or_name = pol_name policy @ '':'' @ rule_name rule,
          or_success = list_all act_success acts,
          actions = acts,
          startTime = exec_start dr,
          endTime = exec_end dr,
          duration = int (exec_end dr) - int (exec_start dr),
          or_context = ctx\<rparr>)"

fun enforceRules ::
  "nat \<Rightarrow> (nat \<Rightarrow> RuleDraws) \<Rightarrow> OrchestrationState \<Rightarrow> AnalyticsResult \<Rightarrow> Policy \<Rightarrow> PolicyRule list
     \<Rightarrow> Emitted outcome" where
  "enforceRules j draws s analyticsResult policy [] = Normal []"
| "enforceRules j draws s analyticsResult policy (rule # rest) =
     (if rule_status rule = RuleActive \<and> condition_met (draws j)
      then (case notifyOrchestrationCallbacks s
                   (executeRuleActions policy rule (AnalyticsContext analyticsResult)
                      (rule_exec (draws j))) of
              Throws e \<Rightarrow> Throws e
            | Normal lg \<Rightarrow>
                (case enforceRules (Suc j) draws s analyticsResult policy rest of
                   Throws e \<Rightarrow> Throws e
                 | Normal lgs \<Rightarrow> Normal (lg # lgs)))
      else enforceRules (Suc j) draws s analyticsResult policy rest)"

fun enforceEach ::
  "nat \<Rightarrow> (nat \<Rightarrow> nat \<Rightarrow> RuleDraws) \<Rightarrow> OrchestrationState \<Rightarrow> AnalyticsResult \<Rightarrow> Policy list
     \<Rightarrow> Emitted outcome" where
  "enforceEach i draws s analyticsResult [] = Normal []"
| "enforceEach i draws s analyticsResult (policy # rest) =
     (case enforceRules 0 (draws i) s analyticsResult policy (rules policy) of
        Throws e \<Rightarrow> Throws e
      | Normal lg \<Rightarrow>
          (case enforceEach (Suc i) draws s analyticsResult rest of
             Throws e \<Rightarrow> Throws e
           | Normal lgs \<Rightarrow> Normal (lg @ lgs)))"

definition enforcePolicies ::
  "OrchestrationState \<Rightarrow> (nat \<Rightarrow> nat \<Rightarrow> RuleDraws) \<Rightarrow> AnalyticsResult \<Rightarrow> Emitted outcome" where
  "enforcePolicies s draws analyticsResult =
     (let applicablePolicies =
            filter (\<lambda>policy. pol_status policy = PolicyActive \<and>
                             (pol_environment policy = Some (ar_environment analyticsResult) \<or>
                              pol_environment policy = None))
                   (map_values (policies s))
      in enforceEach 0 draws s analyticsResult applicablePolicies)"

definition handleAnalyticsResult ::
  "OrchestrationDraws \<Rightarrow> AnalyticsResult \<Rightarrow> OrchestrationState
     \<Rightarrow> OrchestrationState \<times> Emitted outcome" where
  "handleAnalyticsResult dr analyticsResult s =
     (case respondToAnomalies 0 (anomaly_draws dr) (ar_anomalies analyticsResult) s of
        (s', Throws e) \<Rightarrow> (s', Throws e)
      | (s', Normal lg1) \<Rightarrow>
          (case respondToComplianceIssues 0 (compliance_draws dr)
                  (ar_complianceResults analyticsResult) s' of
             Throws e \<Rightarrow> (s', Throws e)
           | Normal lg2 \<Rightarrow>
               (case enforcePolicies s' (policy_draws dr) analyticsResult of
                  Throws e \<Rightarrow> (s', Throws e)
                | Normal lg3 \<Rightarrow> (s', Normal (lg1 @ lg2 @ lg3)))))"


subsection \<open>The service as the module leaves it\<close>

definition ransomwareResponse :: Playbook where
  "ransomwareResponse =
     \<lparr>pb_id = ''ransomware-response'',
      pb_name = ''Ransomware Response'',
      pb_description = ''Automated response to ransomware detection'',
      pb_type = AnomalyPlaybook,
      triggers =
        [\<lparr>trig_type = Some ''network'', trig_severity = Some ''critical'',
          trig_frameworkId = None, trig_controlId = None\<rparr>,
         \<lparr>trig_type = Some ''system'', trig_severity = Some ''critical'',
          trig_frameworkId = None, trig_controlId = None\<rparr>],
      steps =
        [\<lparr>step_name = ''Isolate Affected Systems'',
          step_description = ''Isolate affected systems from the network'',
          step_action = ''isolate'', critical = True\<rparr>,
         \<lparr>step_name = ''Capture Forensic Evidence'',
          step_description = ''Capture forensic evidence for investigation'',
          step_action = ''capture_evidence'', critical = False\<rparr>,
         \<lparr>step_name = ''Notify Security Team'',
          step_description = ''Send notification to security team'',
          step_action = ''notify'', critical = True\<rparr>,
         \<lparr>step_name = ''Initiate Incident Response'',
          step_description = ''Create incident and assign to security team'',
          step_action = ''create_incident'', critical = True\<rparr>]\<rparr>"

definition complianceRemediation :: Playbook where
  "complianceRemediation =
     \<lparr>pb_id = ''compliance-remediation'',
      pb_name = ''Compliance Remediation'',
      pb_description = ''Automated remediation for compliance issues'',
      pb_type = CompliancePlaybook,
      triggers =
        [\<lparr>trig_type = None, trig_severity = None,
          trig_frameworkId = Some ''nist-csf'', trig_controlId = None\<rparr>,
         \<lparr>trig_type = None, trig_severity = None,
          trig_frameworkId = Some ''iso-27001'', trig_controlId = None\<rparr>],
      steps =
        [\<lparr>step_name = ''Document Compliance Issue'',
          step_description = ''Document the compliance issue'',
          step_action = ''document'', critical = True\<rparr>,
         \<lparr>step_name = ''Assign Remediation Task'',
          step_description = ''Assign remediation task to appropriate team'',
          step_action = ''assign_task'', critical = True\<rparr>,
         \<lparr>step_name = ''Schedule Follow-up Assessment'',
          step_description = ''Schedule follow-up assessment to verify remediation'',
          step_action = ''schedule_assessment'', critical = False\<rparr>,
         \<lparr>step_name = ''Notify Compliance Officer'',
          step_description = ''Send notification to compliance officer'',
          step_action = ''notify'', critical = True\<rparr>]\<rparr>"

definition networkSegmentation :: Policy where
  \<open>networkSegmentation =
     \<lparr>pol_id = ''network-segmentation'',
      pol_name = ''Network Segmentation'',
      pol_description = ''Policy for enforcing network segmentation between IT and OT'',
      pol_type = ''security'',
      pol_environment = None,
      rules =
        [\<lparr>rule_id = ''ns-rule-1'',
          rule_policyId = ''network-segmentation'',
          rule_name = ''Block Unauthorized IT-OT Traffic'',
          rule_description = ''Block unauthorized traffic between IT and OT networks'',
          rule_condition = ''{"source": "IT", "destination": "OT", "authorized": false}'',
          rule_actions =
            [\<lparr>pa_id = ''ns-action-1'', pa_ruleId = ''ns-rule-1'', pa_type = ''block''\<rparr>,
             \<lparr>pa_id = ''ns-action-2'', pa_ruleId = ''ns-rule-1'', pa_type = ''alert''\<rparr>],
          rule_status = RuleActive\<rparr>],
      pol_status = PolicyActive\<rparr>\<close>

definition cloudAccessControl :: Policy where
  \<open>cloudAccessControl =
     \<lparr>pol_id = ''cloud-access-control'',
      pol_name = ''Cloud Access Control'',
      pol_description = ''Policy for enforcing access control to cloud resources'',
      pol_type = ''security'',
      pol_environment = Some Cloud,
      rules =
        [\<lparr>rule_id = ''cac-rule-1'',
          rule_policyId = ''cloud-access-control'',
          rule_name = ''Enforce MFA for Admin Access'',
          rule_description = ''Enforce multi-factor authentication for administrative access'',
          rule_condition = ''{"role": "admin", "mfa": false}'',
          rule_actions =
            [\<lparr>pa_id = ''cac-action-1'', pa_ruleId = ''cac-rule-1'', pa_type = ''block''\<rparr>,
             \<lparr>pa_id = ''cac-action-2'', pa_ruleId = ''cac-rule-1'', pa_type = ''notify''\<rparr>],
          rule_status = RuleActive\<rparr>],
      pol_status = PolicyActive\<rparr>\<close>

definition orchestrationService :: OrchestrationState where
  "orchestrationService =
     registerPolicy cloudAccessControl
       (registerPolicy networkSegmentation
         (registerPlaybook complianceRemediation
           (registerPlaybook ransomwareResponse
             \<lparr>playbooks = [], policies = [], incidents = [], orchestrationCallbacks = []\<rparr>)))"

section \<open>Examples\<close>

text \<open>
  A SCADA source polled every 30 seconds, as createSCADADataSource makes it, registered with
  a fresh ingestion service whose capacity has been set to three records.
\<close>

definition scadaSource :: DataSource where
  "scadaSource =
     \<lparr>ds_id = ''scada-1'', ds_name = ''Plant'', ds_type = SCADA, ds_environment = OT,
      pollingInterval = Some 30, ds_status = Active, lastSyncTime = None\<rparr>"

definition smallIngestion :: "nat IngestionState" where
  "smallIngestion = setBufferSize 3 (fst (registerDataSource scadaSource newIngestionService))"

text \<open>
  A critical network anomaly, and the readings of an execution in which the first step
  succeeds and every later step fails.
\<close>

definition networkAnomaly :: Anomaly where
  "networkAnomaly =
     \<lparr>an_id = ''anomaly-1'', an_assetId = None, an_dataSourceId = Some ''siem-1'',
      an_type = NetworkAnomaly, an_description = ''Unusual activity detected in Core'',
      an_severity = Critical, confidence = 90, relatedEvents = [''event-1''],
      an_status = AnomalyNew, detectedAt = 100, an_updatedAt = 100\<rparr>"

definition firstStepOnly :: ExecDraws where
  "firstStepOnly =
     \<lparr>exec_start = 100,
      step_draws = (\<lambda>k. \<lparr>succeeded = (k = 0), step_date = 100 + k\<rparr>),
      exec_end = 104\<rparr>"




text \<open>Readings of two risk calculations made in the same millisecond.\<close>

definition firstRiskDraws :: "nat \<Rightarrow> RiskDraws" where
  "firstRiskDraws = (\<lambda>i. \<lparr>vuln_draw = 3, threat_draw = 4, compliance_draw = 5, exposure_draw = 6,
                           trend_draw = Stable, date_now = 5, new_date = 5\<rparr>)"

definition secondRiskDraws :: "nat \<Rightarrow> RiskDraws" where
  "secondRiskDraws = (\<lambda>i. \<lparr>vuln_draw = 9, threat_draw = 4, compliance_draw = 5, exposure_draw = 6,
                            trend_draw = Increasing, date_now = 5, new_date = 5\<rparr>)"

definition laterRiskDraws :: "nat \<Rightarrow> RiskDraws" where
  "laterRiskDraws = (\<lambda>i. \<lparr>vuln_draw = 9, threat_draw = 4, compliance_draw = 5, exposure_draw = 6,
                           trend_draw = Increasing, date_now = 6, new_date = 6\<rparr>)"

definition afterFirstCalculation :: AnalyticsState where
  "afterFirstCalculation = fst (calculateRiskScores analyticsService firstRiskDraws IT ''SIEM'' [])"

definition afterSecondCalculation :: AnalyticsState where
  "afterSecondCalculation =
     fst (calculateRiskScores afterFirstCalculation secondRiskDraws IT ''SIEM'' [])"



text \<open>
  Readings for the orchestration stage, and the analytics result that carries the critical
  network anomaly alone.
\<close>

definition someIncidentDraws :: IncidentDraws where
  "someIncidentDraws =
     \<lparr>update_date = 300, event_stamp = ''300-upd'', event_date = 300,
      incident_stamp = ''105-abc'', detection_stamp = ''105-det'',
      detection_incident_stamp = ''105-xyz'', detection_date = 105,
      action_stamp = ''106-act'', action_incident_stamp = ''105-uvw'', action_date = 105,
      created_date = 105, created_update_date = 105\<rparr>"

definition someOrchestrationDraws :: OrchestrationDraws where
  "someOrchestrationDraws =
     \<lparr>anomaly_draws = (\<lambda>i. \<lparr>exec_draws = firstStepOnly, incident_draws = someIncidentDraws\<rparr>),
      compliance_draws = (\<lambda>i. firstStepOnly),
      policy_draws = (\<lambda>i j. \<lparr>condition_met = False, rule_exec = firstStepOnly\<rparr>)\<rparr>"

definition anomalyResult :: AnalyticsResult where
  "anomalyResult =
     \<lparr>ar_environment = IT, ar_sourceType = ''SIEM'', ar_timestamp = 101, ar_riskScores = [],
      ar_anomalies = [networkAnomaly], ar_complianceResults = []\<rparr>"

definition afterAnomaly :: OrchestrationState where
  "afterAnomaly = fst (handleAnalyticsResult someOrchestrationDraws anomalyResult orchestrationService)"

text \<open>
  An operator's update of the incident created above that passes an incident without events
  and without anomalies, and an operator's comment dated before the incident.
\<close>

definition blankedIncident :: Incident where
  "blankedIncident =
     \<lparr>inc_id = ''incident-105-abc'', title = ''Incident: Unusual activity detected in Core'',
      inc_description = ''Closed by operator'', inc_severity = Critical, inc_status = Closed,
      assignedTo = Some ''operator'', affectedAssets = [], relatedAnomalies = [], timeline = [],
      createdAt = 105, inc_updatedAt = 105, resolvedAt = Some 400\<rparr>"

definition lateComment :: EventInput where
  "lateComment =
     \<lparr>in_type = Comment, in_description = ''Seen earlier'', in_user = Some ''operator'',
      in_timestamp = 1\<rparr>"

text \<open>Readings of a second delivery of the anomaly, 195 milliseconds later.\<close>

definition secondDelivery :: RespondDraws where
  "secondDelivery =
     \<lparr>exec_draws = firstStepOnly,
      incident_draws = someIncidentDraws\<lparr>incident_stamp := ''300-def''\<rparr>\<rparr>"

section \<open>The notification loop\<close>

lemma notifyLoop_total:
  "\<exists>lg'. notifyLoop i cbs x lg = Normal lg' \<and>
         invoked lg' = invoked lg @ map (\<lambda>j. (j, x)) [i ..< i + length cbs] \<and>
         logged lg' = logged lg @ thrown_by cbs x"
proof (induction cbs arbitrary: i lg)
  case Nil
  then show ?case by (simp add: thrown_by_def)
next
  case (Cons cb cbs)
  show ?case
  proof (cases "cb x")
    case (Normal u)
    then show ?thesis
      using Cons.IH [of "Suc i" "lg\<lparr>invoked := invoked lg @ [(i, x)]\<rparr>"]
      by (auto simp: try_catch_def Let_def thrown_by_def upt_conv_Cons simp del: upt_Suc)
  next
    case (Throws e)
    then show ?thesis
      using Cons.IH [of "Suc i" "lg\<lparr>invoked := invoked lg @ [(i, x)], logged := logged lg @ [e]\<rparr>"]
      by (auto simp: try_catch_def Let_def thrown_by_def upt_conv_Cons simp del: upt_Suc)
  qed
qed

lemma notify_from_start:
  "\<exists>lg. notifyLoop 0 cbs x no_calls = Normal lg \<and>
        invoked lg = map (\<lambda>j. (j, x)) [0 ..< length cbs] \<and>
        logged lg = thrown_by cbs x"
  using notifyLoop_total [of 0 cbs x no_calls] by (simp add: no_calls_def)

text \<open>
  Claim C8. In each of the four stages the notification completes normally whatever the
  subscribers do: no exception of a subscriber leaves it. Every registered callback is called,
  in registration order, with the same argument, those after a throwing callback included, and
  the errors thrown are the ones logged.
\<close>

theorem C8_subscriber_exceptions_are_contained:
  "(\<exists>lg. notifyDataCallbacks si sourceId batch = Normal lg \<and>
         invoked lg = map (\<lambda>j. (j, (sourceId, batch))) [0 ..< length (dataCallbacks si)] \<and>
         logged lg = thrown_by (dataCallbacks si) (sourceId, batch)) \<and>
   (\<exists>lg. notifyProcessingCallbacks sp processedData = Normal lg \<and>
         invoked lg = map (\<lambda>j. (j, processedData)) [0 ..< length (processingCallbacks sp)] \<and>
         logged lg = thrown_by (processingCallbacks sp) processedData) \<and>
   (\<exists>lg. notifyAnalyticsCallbacks sa analyticsResult = Normal lg \<and>
         invoked lg = map (\<lambda>j. (j, analyticsResult)) [0 ..< length (analyticsCallbacks sa)] \<and>
         logged lg = thrown_by (analyticsCallbacks sa) analyticsResult) \<and>
   (\<exists>lg. notifyOrchestrationCallbacks so result = Normal lg \<and>
         invoked lg = map (\<lambda>j. (j, result)) [0 ..< length (orchestrationCallbacks so)] \<and>
         logged lg = thrown_by (orchestrationCallbacks so) result)"
  unfolding notifyDataCallbacks_def notifyProcessingCallbacks_def notifyAnalyticsCallbacks_def
    notifyOrchestrationCallbacks_def
  by (intro conjI notify_from_start)

section \<open>Ingestion\<close>

lemma stopCollection_unknown:
  "map_get (collectionIntervals s) i = None \<Longrightarrow> stopCollection i s = s"
  by (simp add: stopCollection_def)

lemma removeDataSource_others:
  "j \<noteq> i \<Longrightarrow>
     map_get (collectionIntervals (removeDataSource i s)) j = map_get (collectionIntervals s) j \<and>
     map_get (dataBuffer (removeDataSource i s)) j = map_get (dataBuffer s) j \<and>
     map_get (dataSources (removeDataSource i s)) j = map_get (dataSources s) j"
  by (simp add: removeDataSource_def stopCollection_def Let_def split: option.splits)

lemma smallIngestion_eval:
  "smallIngestion =
     \<lparr>dataSources = [(''scada-1'', scadaSource)], collectionIntervals = [(''scada-1'', 30000)],
      dataBuffer = [(''scada-1'', [])], bufferSize = 3, dataCallbacks = []\<rparr>"
  by (simp add: smallIngestion_def setBufferSize_def registerDataSource_def startCollection_def
      newIngestionService_def scadaSource_def truthy_num_def Let_def)

text \<open>
  Claim C10. stopCollection, removeDataSource and getBufferedData have no statement that
  throws (they return a state or a list, with no outcome). For an id with no running task
  stopCollection leaves the service as it is; for an unregistered id removeDataSource leaves the
  task and the buffer of every other source as they are, and getBufferedData of an id without a
  buffer is the empty list. updateDataSource and startCollection throw for an unregistered id
  and leave the service as it is.
\<close>

theorem C10_unknown_ids:
  "(map_get (collectionIntervals s) i = None \<longrightarrow> stopCollection i s = s) \<and>
   (map_get (dataSources s) i = None \<longrightarrow>
      (\<forall>j. j \<noteq> i \<longrightarrow>
         map_get (collectionIntervals (removeDataSource i s)) j = map_get (collectionIntervals s) j \<and>
         map_get (dataBuffer (removeDataSource i s)) j = map_get (dataBuffer s) j)) \<and>
   (map_get (dataBuffer s) i = None \<longrightarrow> getBufferedData i s = []) \<and>
   (map_get (dataSources s) (ds_id d) = None \<longrightarrow>
      updateDataSource d s = (s, Throws (sourceNotFound (ds_id d)))) \<and>
   (map_get (dataSources s) i = None \<longrightarrow>
      startCollection i s = (s, Throws (sourceNotFound i)))"
  using removeDataSource_others [of _ i s]
  by (simp add: stopCollection_unknown getBufferedData_def updateDataSource_def startCollection_def)

theorem C10_unknown_ids_witness:
  "map_get (collectionIntervals smallIngestion) ''ghost'' = None \<and>
   map_get (dataSources smallIngestion) ''ghost'' = None \<and>
   map_get (dataBuffer smallIngestion) ''ghost'' = None \<and>
   stopCollection ''ghost'' smallIngestion = smallIngestion \<and>
   map_get (collectionIntervals (removeDataSource ''ghost'' smallIngestion)) ''scada-1'' = Some 30000 \<and>
   map_get (dataBuffer (removeDataSource ''ghost'' smallIngestion)) ''scada-1'' = Some [] \<and>
   getBufferedData ''ghost'' smallIngestion = [] \<and>
   updateDataSource (scadaSource\<lparr>ds_id := ''ghost''\<rparr>) smallIngestion =
     (smallIngestion, Throws (sourceNotFound ''ghost'')) \<and>
   startCollection ''ghost'' smallIngestion = (smallIngestion, Throws (sourceNotFound ''ghost''))"
  using C10_unknown_ids [of smallIngestion "''ghost''" "scadaSource\<lparr>ds_id := ''ghost''\<rparr>"]
  by (simp add: smallIngestion_eval)








section \<open>Playbook execution\<close>

lemma executeSteps_shape:
  "\<exists>new. executeSteps i draws ctx sts acc = acc @ new \<and>
         length new \<le> length sts \<and>
         (\<forall>k < length new. simulateActionExecution (sts ! k) ctx (draws (i + k)) = Normal (new ! k)) \<and>
         (\<forall>k. Suc k < length new \<longrightarrow> \<not> (critical (sts ! k) \<and> \<not> act_success (new ! k))) \<and>
         (length new < length sts \<longrightarrow>
            new \<noteq> [] \<and> critical (sts ! (length new - 1)) \<and> \<not> act_success (last new))"
proof (induction sts arbitrary: i acc)
  case Nil
  then show ?case by simp
next
  case (Cons step rest)
  obtain r where r: "simulateActionExecution step ctx (draws i) = Normal r"
    by (simp add: simulateActionExecution_def)
  show ?case
  proof (cases "\<not> act_success r \<and> critical step")
    case True
    then have "executeSteps i draws ctx (step # rest) acc = acc @ [r]"
      using r by simp
    then show ?thesis using True r by (intro exI [of _ "[r]"]) simp
  next
    case False
    obtain new where new:
      "executeSteps (Suc i) draws ctx rest (acc @ [r]) = (acc @ [r]) @ new"
      "length new \<le> length rest"
      "\<forall>k < length new. simulateActionExecution (rest ! k) ctx (draws (Suc i + k)) = Normal (new ! k)"
      "\<forall>k. Suc k < length new \<longrightarrow> \<not> (critical (rest ! k) \<and> \<not> act_success (new ! k))"
      "length new < length rest \<longrightarrow>
            new \<noteq> [] \<and> critical (rest ! (length new - 1)) \<and> \<not> act_success (last new)"
      using Cons.IH [of "Suc i" "acc @ [r]"] by blast
    have run: "executeSteps i draws ctx (step # rest) acc = acc @ (r # new)"
      using False new(1) r by auto
    have a: "\<forall>k < length (r # new).
               simulateActionExecution ((step # rest) ! k) ctx (draws (i + k)) = Normal ((r # new) ! k)"
      using new(3) r by (auto simp: nth_Cons split: nat.splits)
    have b: "\<forall>k. Suc k < length (r # new) \<longrightarrow>
               \<not> (critical ((step # rest) ! k) \<and> \<not> act_success ((r # new) ! k))"
      using new(4) False by (auto simp: nth_Cons split: nat.splits)
    have c: "length (r # new) < length (step # rest) \<longrightarrow>
            (r # new) \<noteq> [] \<and> critical ((step # rest) ! (length (r # new) - 1)) \<and>
            \<not> act_success (last (r # new))"
      using new(5) by (cases new) auto
    show ?thesis
      using run new(2) a b c by (intro exI [of _ "r # new"]) simp
  qed
qed

text \<open>
  Claim C6. executePlaybook attempts the steps in list order: the action results are as many
  as the steps attempted, the \<open>k\<close>-th being the result of simulating the \<open>k\<close>-th step. No step
  before the last one attempted is a critical step that failed, and when fewer steps were
  attempted than the playbook has, the last one attempted is critical and failed: the
  remaining steps are skipped exactly then. The result is a success if and only if every
  action attempted succeeded.
\<close>

theorem C6_executePlaybook:
  "length (actions (executePlaybook pb ctx dr)) \<le> length (steps pb) \<and>
   (\<forall>k < length (actions (executePlaybook pb ctx dr)).
      simulateActionExecution (steps pb ! k) ctx (step_draws dr k) =
        Normal (actions (executePlaybook pb ctx dr) ! k)) \<and>
   (\<forall>k. Suc k < length (actions (executePlaybook pb ctx dr)) \<longrightarrow>
      \<not> (critical (steps pb ! k) \<and> \<not> act_success (actions (executePlaybook pb ctx dr) ! k))) \<and>
   (length (actions (executePlaybook pb ctx dr)) < length (steps pb) \<longrightarrow>
      actions (executePlaybook pb ctx dr) \<noteq> [] \<and>
      critical (steps pb ! (length (actions (executePlaybook pb ctx dr)) - 1)) \<and>
      \<not> act_success (last (actions (executePlaybook pb ctx dr)))) \<and>
   (or_success (executePlaybook pb ctx dr) \<longleftrightarrow>
      (\<forall>a \<in> set (actions (executePlaybook pb ctx dr)). act_success a))"
  using executeSteps_shape [of 0 "step_draws dr" ctx "steps pb" "[]"]
  by (auto simp: executePlaybook_def Let_def list_all_iff)

lemma ransomware_run:
  "actions (executePlaybook ransomwareResponse (AnomalyContext networkAnomaly) firstStepOnly) =
     [\<lparr>act_label = ''Isolate Affected Systems'', act_success = True, act_error = None,
       act_timestamp = 100\<rparr>,
      \<lparr>act_label = ''Capture Forensic Evidence'', act_success = False,
       act_error = Some ''Simulated failure'', act_timestamp = 101\<rparr>,
      \<lparr>act_label = ''Notify Security Team'', act_success = False,
       act_error = Some ''Simulated failure'', act_timestamp = 102\<rparr>]"
  by (simp add: executePlaybook_def ransomwareResponse_def firstStepOnly_def
      simulateActionExecution_def Let_def)

theorem C6_executePlaybook_witness:
  "length (actions (executePlaybook ransomwareResponse (AnomalyContext networkAnomaly) firstStepOnly)) = 3 \<and>
   length (steps ransomwareResponse) = 4 \<and>
   map act_success (actions (executePlaybook ransomwareResponse (AnomalyContext networkAnomaly) firstStepOnly))
     = [True, False, False] \<and>
   \<not> critical (steps ransomwareResponse ! 1) \<and>
   critical (steps ransomwareResponse ! 2) \<and>
   \<not> or_success (executePlaybook ransomwareResponse (AnomalyContext networkAnomaly) firstStepOnly)"
  using C6_executePlaybook [of ransomwareResponse "AnomalyContext networkAnomaly" firstStepOnly]
  by (simp add: ransomware_run) (simp add: ransomwareResponse_def)


section \<open>Enrichment\<close>







section \<open>The risk score cache\<close>

lemma find_append_case:
  "List.find P (xs @ ys) = (case List.find P xs of Some x \<Rightarrow> Some x | None \<Rightarrow> List.find P ys)"
  by (induction xs) auto

lemma find_SomeD: "List.find P xs = Some x \<Longrightarrow> P x \<and> x \<in> set xs"
  by (induction xs) (auto split: if_splits)

lemma cacheScores_lookup:
  "map_get (cacheScores new cache) k =
     (case List.find (\<lambda>sc. rs_id sc = k) (rev new) of
        Some sc \<Rightarrow> Some sc
      | None \<Rightarrow> map_get cache k)"
proof (induction new arbitrary: cache)
  case Nil
  then show ?case by simp
next
  case (Cons sc new)
  show ?case
    by (simp add: Cons.IH update_conv' find_append_case split: option.splits)
qed

lemma find_rev_Some:
  assumes "sc \<in> set new"
  shows "\<exists>sc' \<in> set new. rs_id sc' = rs_id sc \<and>
     List.find (\<lambda>x. rs_id x = rs_id sc) (rev new) = Some sc'"
proof -
  have "\<exists>x \<in> set (rev new). rs_id x = rs_id sc" using assms by auto
  then obtain sc' where f: "List.find (\<lambda>x. rs_id x = rs_id sc) (rev new) = Some sc'"
    by (cases "List.find (\<lambda>x. rs_id x = rs_id sc) (rev new)") (auto simp: find_None_iff)
  from find_SomeD [OF f] show ?thesis using f by auto
qed

lemma afterFirst_scores:
  "map fst (riskScores afterFirstCalculation) = [''risk-IT-5'']"
  by (simp add: afterFirstCalculation_def calculateRiskScores_def analyticsService_def
      registerRiskScoreEngine_def selectEngine_def env_name_def itRiskScoreEngine_def
      firstRiskDraws_def Let_def decimal.simps)

text \<open>
  Claim C5, as stated, is false: the cache is written with \<open>Map.set\<close> under the id of the
  score, and the id of a score is \<^verbatim>\<open>risk-${env}-${Date.now()}\<close>. Two calculations for
  IT in the same millisecond write the same key, and the second replaces the entry of the
  first.
\<close>

theorem C5_counterexample:
  "map_option trend (map_get (riskScores afterFirstCalculation) ''risk-IT-5'') = Some Stable \<and>
   map_option trend (map_get (riskScores afterSecondCalculation) ''risk-IT-5'') = Some Increasing"
  by (simp add: afterSecondCalculation_def afterFirstCalculation_def calculateRiskScores_def
      analyticsService_def registerRiskScoreEngine_def selectEngine_def env_name_def
      itRiskScoreEngine_def firstRiskDraws_def secondRiskDraws_def Let_def decimal.simps)

text \<open>
  Claim C5, amended. An invocation of calculateRiskScores leaves every cache entry whose id
  is not the id of one of the scores it has just calculated present and unchanged; under the
  id of each new score the cache then holds a new score with that id (the entry that was
  there, if any, is replaced). The caches of anomalies and of controls are not touched.
\<close>

theorem C5_cache_update:
  assumes "calculateRiskScores s draws environment sourceType data' = (s', newScores)"
  shows "(\<forall>k. k \<notin> rs_id ` set newScores \<longrightarrow> map_get (riskScores s') k = map_get (riskScores s) k) \<and>
         (\<forall>sc \<in> set newScores. \<exists>sc' \<in> set newScores.
             rs_id sc' = rs_id sc \<and> map_get (riskScores s') (rs_id sc) = Some sc') \<and>
         anomalies s' = anomalies s \<and> complianceStatus s' = complianceStatus s"
proof -
  have s': "riskScores s' = cacheScores newScores (riskScores s)"
    "anomalies s' = anomalies s" "complianceStatus s' = complianceStatus s"
    using assms by (auto simp: calculateRiskScores_def Let_def)
  have a: "map_get (riskScores s') k = map_get (riskScores s) k" if "k \<notin> rs_id ` set newScores" for k
  proof -
    have "List.find (\<lambda>sc. rs_id sc = k) (rev newScores) = None"
      using that by (auto simp: find_None_iff)
    then show ?thesis by (simp add: s' cacheScores_lookup)
  qed
  have b: "\<exists>sc' \<in> set newScores. rs_id sc' = rs_id sc \<and> map_get (riskScores s') (rs_id sc) = Some sc'"
    if "sc \<in> set newScores" for sc
    using find_rev_Some [OF that] by (auto simp: s' cacheScores_lookup)
  show ?thesis using a b s' by blast
qed


theorem C5_cache_update_witness:
  "calculateRiskScores afterFirstCalculation laterRiskDraws IT ''SIEM'' [] =
     (fst (calculateRiskScores afterFirstCalculation laterRiskDraws IT ''SIEM'' []),
      snd (calculateRiskScores afterFirstCalculation laterRiskDraws IT ''SIEM'' [])) \<and>
   ''risk-IT-5'' \<notin> rs_id ` set (snd (calculateRiskScores afterFirstCalculation laterRiskDraws IT ''SIEM'' [])) \<and>
   map_get (riskScores (fst (calculateRiskScores afterFirstCalculation laterRiskDraws IT ''SIEM'' [])))
     ''risk-IT-5'' = map_get (riskScores afterFirstCalculation) ''risk-IT-5'' \<and>
   map_get (riskScores afterFirstCalculation) ''risk-IT-5'' \<noteq> None"
proof -
  have new: "map rs_id (snd (calculateRiskScores afterFirstCalculation laterRiskDraws IT ''SIEM'' []))
               = [''risk-IT-6'']"
    by (simp add: afterFirstCalculation_def calculateRiskScores_def analyticsService_def
        registerRiskScoreEngine_def selectEngine_def env_name_def itRiskScoreEngine_def
        laterRiskDraws_def Let_def decimal.simps)
  have notin: "''risk-IT-5'' \<notin>
      rs_id ` set (snd (calculateRiskScores afterFirstCalculation laterRiskDraws IT ''SIEM'' []))"
    using new by (simp flip: set_map)
  have "''risk-IT-5'' \<in> set (map fst (riskScores afterFirstCalculation))"
    by (simp add: afterFirst_scores)
  then have there: "map_get (riskScores afterFirstCalculation) ''risk-IT-5'' \<noteq> None"
    by (simp add: map_of_eq_None_iff)
  from C5_cache_update [OF prod.collapse [symmetric], of afterFirstCalculation laterRiskDraws IT
      "''SIEM''" "[]"]
  show ?thesis using notin there by simp
qed

section \<open>Risk scores\<close>

subsection \<open>Accuracy of the rounded arithmetic\<close>























subsection \<open>The built-in engines\<close>













section \<open>Incidents\<close>

subsection \<open>Association lists\<close>

lemma update_at:
  "k \<notin> fst ` set xs \<Longrightarrow> AList.update k v (xs @ (k, x) # ys) = xs @ (k, v) # ys"
  by (induction xs) auto

lemma update_absent: "k \<notin> fst ` set al \<Longrightarrow> AList.update k v al = al @ [(k, v)]"
  by (induction al) auto


lemma alist_update_has: "(k, v) \<in> set (AList.update k v al)"
  by (induction al) auto

lemma find_values_split:
  "List.find P (map snd al) = Some x \<Longrightarrow>
     \<exists>xs k ys. al = xs @ (k, x) # ys \<and> P x \<and> (\<forall>p \<in> set xs. \<not> P (snd p))"
proof (induction al)
  case Nil
  then show ?case by simp
next
  case (Cons p al)
  show ?case
  proof (cases "P (snd p)")
    case True
    then have "x = snd p" using Cons.prems by simp
    then have "p # al = [] @ (fst p, x) # al" by simp
    then show ?thesis using True \<open>x = snd p\<close> by (metis empty_iff empty_set)
  next
    case False
    then have "List.find P (map snd al) = Some x" using Cons.prems by simp
    from Cons.IH [OF this] obtain xs k ys where
      "al = xs @ (k, x) # ys" "P x" "\<forall>p \<in> set xs. \<not> P (snd p)" by blast
    then have "p # al = (p # xs) @ (k, x) # ys \<and> P x \<and> (\<forall>q \<in> set (p # xs). \<not> P (snd q))"
      using False by simp
    then show ?thesis by blast
  qed
qed

lemma find_None_filter: "List.find P xs = None \<longleftrightarrow> filter P xs = []"
  by (induction xs) auto

subsection \<open>createOrUpdateIncident\<close>

lemma store_ok_key: "store_ok s \<Longrightarrow> (k, i) \<in> set (incidents s) \<Longrightarrow> inc_id i = k"
  by (auto simp: store_ok_def list_all_iff)

lemma cou_frame:
  "playbooks (createOrUpdateIncident d a res s) = playbooks s"
  "policies (createOrUpdateIncident d a res s) = policies s"
  "orchestrationCallbacks (createOrUpdateIncident d a res s) = orchestrationCallbacks s"
  by (simp_all add: createOrUpdateIncident_def Let_def split: option.splits)

text \<open>The two branches, on the list that is the store.\<close>

lemma cou_cases:
  assumes ok: "store_ok s"
  shows "(\<exists>xs ex ys. incidents s = xs @ (inc_id ex, ex) # ys \<and>
             an_id a \<in> set (relatedAnomalies ex) \<and>
             (\<forall>p \<in> set xs. an_id a \<notin> set (relatedAnomalies (snd p))) \<and>
             inc_id ex \<notin> fst ` set xs \<and> inc_id ex \<notin> fst ` set ys \<and>
             incidents (createOrUpdateIncident d a res s) =
               xs @ (inc_id ex, updatedIncident d ex res) # ys) \<or>
         (referencing (an_id a) s = [] \<and>
          incidents (createOrUpdateIncident d a res s) =
            AList.update (newIncidentId d) (newIncident d a res) (incidents s))"
proof (cases "array_find (\<lambda>incident. an_id a \<in> set (relatedAnomalies incident))
                (map_values (incidents s))")
  case None
  then have "referencing (an_id a) s = []"
    by (simp add: referencing_def getIncidents_def find_None_filter)
  moreover have "incidents (createOrUpdateIncident d a res s) =
            AList.update (newIncidentId d) (newIncident d a res) (incidents s)"
    using None by (simp add: createOrUpdateIncident_def Let_def newIncident_def)
  ultimately show ?thesis by blast
next
  case (Some ex)
  from find_values_split [OF Some] obtain xs k ys where
    split: "incidents s = xs @ (k, ex) # ys" and ex: "an_id a \<in> set (relatedAnomalies ex)"
    and before: "\<forall>p \<in> set xs. an_id a \<notin> set (relatedAnomalies (snd p))"
    by blast
  have k: "k = inc_id ex" using store_ok_key [OF ok, of k ex] split by simp
  have "distinct (map fst (incidents s))" using ok by (simp add: store_ok_def)
  then have nk: "k \<notin> fst ` set xs" "k \<notin> fst ` set ys" using split by auto
  have "incidents (createOrUpdateIncident d a res s) =
          AList.update (inc_id ex) (updatedIncident d ex res) (incidents s)"
    using Some by (simp add: createOrUpdateIncident_def Let_def)
  also have "\<dots> = xs @ (inc_id ex, updatedIncident d ex res) # ys"
    using nk(1) unfolding split k by (rule update_at)
  finally show ?thesis using split ex before nk k by blast
qed

lemma updatedIncident_simps:
  "inc_id (updatedIncident d ex res) = inc_id ex"
  "relatedAnomalies (updatedIncident d ex res) = relatedAnomalies ex"
  "timeline (updatedIncident d ex res) = timeline ex @ [actionEvent d ex res]"
  "ev_type (actionEvent d ex res) = Action"
  "ev_timestamp (actionEvent d ex res) = event_date d"
  by (simp_all add: updatedIncident_def actionEvent_def)

lemma newIncident_simps:
  "inc_id (newIncident d a res) = newIncidentId d"
  "relatedAnomalies (newIncident d a res) = [an_id a]"
  "timestamps (newIncident d a res) = [detection_date d, action_date d]"
  by (simp_all add: newIncident_def timestamps_def)



text \<open>How many stored incidents reference an anomaly id, before and after.\<close>

lemma referencing_append:
  "incidents s = xs @ (k, i) # ys \<Longrightarrow>
     referencing x s =
       filter (\<lambda>j. x \<in> set (relatedAnomalies j)) (map snd xs) @
       (if x \<in> set (relatedAnomalies i) then [i] else []) @
       filter (\<lambda>j. x \<in> set (relatedAnomalies j)) (map snd ys)"
  by (simp add: referencing_def getIncidents_def)

lemma cou_count:
  assumes ok: "store_ok s" and fresh: "newIncidentId d \<notin> fst ` set (incidents s)"
  shows "length (referencing x (createOrUpdateIncident d a res s)) = length (referencing x s) \<or>
         (x = an_id a \<and> referencing x s = [] \<and>
          length (referencing x (createOrUpdateIncident d a res s)) = 1)"
  using cou_cases [OF ok, of a d res]
proof (elim disjE exE conjE)
  fix xs ex ys
  assume a: "incidents s = xs @ (inc_id ex, ex) # ys"
    "incidents (createOrUpdateIncident d a res s) = xs @ (inc_id ex, updatedIncident d ex res) # ys"
  show ?thesis
    by (simp add: referencing_append [OF a(1)] referencing_append [OF a(2)] updatedIncident_simps)
next
  assume none: "referencing (an_id a) s = []"
    and new: "incidents (createOrUpdateIncident d a res s) =
            AList.update (newIncidentId d) (newIncident d a res) (incidents s)"
  have inc: "incidents (createOrUpdateIncident d a res s) =
               incidents s @ [(newIncidentId d, newIncident d a res)]"
    using fresh by (simp add: new update_absent)
  have "referencing x (createOrUpdateIncident d a res s) =
          referencing x s @ (if x = an_id a then [newIncident d a res] else [])"
    by (simp add: referencing_def getIncidents_def inc newIncident_simps)
  then show ?thesis using none by (cases "x = an_id a") simp_all
qed


subsection \<open>Responding to one anomaly\<close>

lemma notifyOrchestration_normal: "\<exists>lg. notifyOrchestrationCallbacks s result = Normal lg"
  using notify_from_start [of "orchestrationCallbacks s" result]
  by (auto simp: notifyOrchestrationCallbacks_def)

lemma respond_state:
  "fst (respondToAnomaly d a s) =
     (case findPlaybookForAnomaly s a of
        Some pb \<Rightarrow> createOrUpdateIncident (incident_draws d) a
                     (executePlaybook pb (AnomalyContext a) (exec_draws d)) s
      | None \<Rightarrow> s)"
  by (simp add: respondToAnomaly_def Let_def split: option.splits outcome.splits)

lemma respond_normal: "\<exists>lg. snd (respondToAnomaly d a s) = Normal lg"
proof (cases "findPlaybookForAnomaly s a")
  case None
  then show ?thesis by (simp add: respondToAnomaly_def)
next
  case (Some pb)
  obtain lg where "notifyOrchestrationCallbacks
      (createOrUpdateIncident (incident_draws d) a
         (executePlaybook pb (AnomalyContext a) (exec_draws d)) s)
      (executePlaybook pb (AnomalyContext a) (exec_draws d)) = Normal lg"
    using notifyOrchestration_normal by blast
  then show ?thesis using Some by (simp add: respondToAnomaly_def Let_def)
qed

lemma findPlaybook_playbooks:
  "playbooks s' = playbooks s \<Longrightarrow> findPlaybookForAnomaly s' a = findPlaybookForAnomaly s a"
  by (simp add: findPlaybookForAnomaly_def)



lemma step_playbooks: "playbooks (fst (respondToAnomaly d b s)) = playbooks s"
  by (simp add: respond_state cou_frame split: option.splits)


lemma step_count:
  assumes "store_ok s" "newIncidentId (incident_draws d) \<notin> fst ` set (incidents s)"
  shows "length (referencing x (fst (respondToAnomaly d b s))) = length (referencing x s) \<or>
         (referencing x s = [] \<and> length (referencing x (fst (respondToAnomaly d b s))) = 1)"
proof (cases "findPlaybookForAnomaly s b")
  case None
  then show ?thesis by (simp add: respond_state)
next
  case (Some pb)
  then show ?thesis
    using cou_count [OF assms, of x b "executePlaybook pb (AnomalyContext b) (exec_draws d)"]
    by (auto simp: respond_state)
qed


subsection \<open>The loop over a batch\<close>

lemma loop_state:
  "fst (respondToAnomalies i draws (b # rest) s) =
     (if an_severity b = Critical \<or> an_severity b = High
      then fst (respondToAnomalies (Suc i) draws rest (fst (respondToAnomaly (draws i) b s)))
      else fst (respondToAnomalies (Suc i) draws rest s))"
proof -
  obtain lg where "snd (respondToAnomaly (draws i) b s) = Normal lg"
    using respond_normal by blast
  then show ?thesis
    by (cases "respondToAnomaly (draws i) b s") (auto split: prod.splits outcome.splits)
qed


lemma handle_state:
  "fst (handleAnalyticsResult dr r s) =
     fst (respondToAnomalies 0 (anomaly_draws dr) (ar_anomalies r) s)"
  by (simp add: handleAnalyticsResult_def split: prod.splits outcome.splits)


subsection \<open>Delivering an anomaly again\<close>



subsection \<open>The example\<close>

lemma ransomware_matches:
  "findPlaybookForAnomaly orchestrationService networkAnomaly = Some ransomwareResponse"
  by (simp add: findPlaybookForAnomaly_def orchestrationService_def registerPlaybook_def
      registerPolicy_def ransomwareResponse_def complianceRemediation_def networkAnomaly_def
      anomaly_type_name_def level_name_def)

lemma afterAnomaly_incidents:
  "incidents afterAnomaly =
     [(''incident-105-abc'',
       newIncident someIncidentDraws networkAnomaly
         (executePlaybook ransomwareResponse (AnomalyContext networkAnomaly) firstStepOnly))]"
proof -
  have sev: "an_severity networkAnomaly = Critical \<or> an_severity networkAnomaly = High"
    by (simp add: networkAnomaly_def)
  have "afterAnomaly =
          fst (respondToAnomaly (anomaly_draws someOrchestrationDraws 0) networkAnomaly
                 orchestrationService)"
    unfolding afterAnomaly_def handle_state using sev
    by (simp only: anomalyResult_def AnalyticsResult.simps loop_state if_True
        respondToAnomalies.simps(1) fst_conv)
  also have "\<dots> = createOrUpdateIncident someIncidentDraws networkAnomaly
                     (executePlaybook ransomwareResponse (AnomalyContext networkAnomaly) firstStepOnly)
                     orchestrationService"
    by (simp add: respond_state ransomware_matches someOrchestrationDraws_def)
  finally have eq: "afterAnomaly = createOrUpdateIncident someIncidentDraws networkAnomaly
                     (executePlaybook ransomwareResponse (AnomalyContext networkAnomaly) firstStepOnly)
                     orchestrationService" .
  show ?thesis unfolding eq
    by (simp add: createOrUpdateIncident_def orchestrationService_def registerPlaybook_def
        registerPolicy_def newIncident_simps newIncidentId_def someIncidentDraws_def Let_def)
qed


subsection \<open>Timelines\<close>

lemma map_of_split:
  "map_of al k = Some v \<Longrightarrow> \<exists>xs ys. al = xs @ (k, v) # ys \<and> k \<notin> fst ` set xs"
proof (induction al)
  case Nil
  then show ?case by simp
next
  case (Cons p al)
  show ?case
  proof (cases "fst p = k")
    case True
    then have "p # al = [] @ (k, v) # al \<and> k \<notin> fst ` set []"
      using Cons.prems by (cases p) simp
    then show ?thesis by blast
  next
    case False
    then have "map_of al k = Some v" using Cons.prems by (cases p) auto
    from Cons.IH [OF this] obtain xs ys where "al = xs @ (k, v) # ys" "k \<notin> fst ` set xs" by blast
    then have "p # al = (p # xs) @ (k, v) # ys \<and> k \<notin> fst ` set (p # xs)"
      using False by simp
    then show ?thesis by blast
  qed
qed

lemma respond_after:
  assumes "findPlaybookForAnomaly s a \<noteq> None"
  shows "referencing (an_id a) (fst (respondToAnomaly d a s)) \<noteq> []"
proof -
  obtain pb where pb: "findPlaybookForAnomaly s a = Some pb" using assms by auto
  let ?res = "executePlaybook pb (AnomalyContext a) (exec_draws d)"
  let ?P = "\<lambda>incident. an_id a \<in> set (relatedAnomalies incident)"
  let ?s' = "createOrUpdateIncident (incident_draws d) a ?res s"
  have "\<exists>k v. (k, v) \<in> set (incidents ?s') \<and> ?P v"
  proof (cases "array_find ?P (map_values (incidents s))")
    case None
    then have "incidents ?s' =
         AList.update (newIncidentId (incident_draws d)) (newIncident (incident_draws d) a ?res)
           (incidents s)"
      by (simp add: createOrUpdateIncident_def Let_def newIncident_simps)
    then have "(newIncidentId (incident_draws d), newIncident (incident_draws d) a ?res)
                 \<in> set (incidents ?s')"
      by (simp add: alist_update_has)
    moreover have "?P (newIncident (incident_draws d) a ?res)" by (simp add: newIncident_simps)
    ultimately show ?thesis by blast
  next
    case (Some ex)
    then have ex: "?P ex" by (auto simp: find_Some_iff)
    have "incidents ?s' =
         AList.update (inc_id ex) (updatedIncident (incident_draws d) ex ?res) (incidents s)"
      using Some by (simp add: createOrUpdateIncident_def Let_def)
    then have "(inc_id ex, updatedIncident (incident_draws d) ex ?res) \<in> set (incidents ?s')"
      by (simp add: alist_update_has)
    moreover have "?P (updatedIncident (incident_draws d) ex ?res)"
      using ex by (simp add: updatedIncident_simps)
    ultimately show ?thesis by blast
  qed
  then have "\<exists>v \<in> set (getIncidents ?s'). ?P v"
    by (force simp: getIncidents_def)
  then show ?thesis
    using pb by (simp add: respond_state referencing_def filter_empty_conv)
qed

lemma respond_keeps_reference:
  assumes "store_ok s" "newIncidentId (incident_draws d) \<notin> fst ` set (incidents s)"
    "referencing x s \<noteq> []"
  shows "referencing x (fst (respondToAnomaly d b s)) \<noteq> []"
  using step_count [OF assms(1,2), of x b] assms(3) by auto

lemma respond_timeline:
  assumes ok: "store_ok s" and fresh: "newIncidentId (incident_draws d) \<notin> fst ` set (incidents s)"
    and k: "map_get (incidents s) k = Some inc"
  shows "\<exists>inc'. map_get (incidents (fst (respondToAnomaly d b s))) k = Some inc' \<and>
           prefix (timeline inc) (timeline inc') \<and>
           (sorted (timestamps inc) \<and> (\<forall>t \<in> set (timestamps inc). t \<le> event_date (incident_draws d))
              \<longrightarrow> sorted (timestamps inc'))"
proof (cases "findPlaybookForAnomaly s b")
  case None
  then show ?thesis using k by (simp add: respond_state)
next
  case (Some pb)
  let ?res = "executePlaybook pb (AnomalyContext b) (exec_draws d)"
  have st: "fst (respondToAnomaly d b s) = createOrUpdateIncident (incident_draws d) b ?res s"
    using Some by (simp add: respond_state)
  from cou_cases [OF ok, of b "incident_draws d" ?res]
  show ?thesis
  proof (elim disjE exE conjE)
    fix xs ex ys
    assume split: "incidents s = xs @ (inc_id ex, ex) # ys"
      and nk: "inc_id ex \<notin> fst ` set xs"
      and upd: "incidents (createOrUpdateIncident (incident_draws d) b ?res s) =
                  xs @ (inc_id ex, updatedIncident (incident_draws d) ex ?res) # ys"
    have at: "map_of xs (inc_id ex) = None" using nk by (simp add: map_of_eq_None_iff)
    show ?thesis
    proof (cases "k = inc_id ex")
      case True
      then have "inc = ex" using k at by (simp add: split map_add_def)
      moreover have "map_get (incidents (createOrUpdateIncident (incident_draws d) b ?res s)) k =
                       Some (updatedIncident (incident_draws d) ex ?res)"
        using True at by (simp add: upd map_add_def)
      ultimately show ?thesis
        by (simp add: st updatedIncident_simps timestamps_def sorted_append)
    next
      case False
      then have "map_get (incidents (createOrUpdateIncident (incident_draws d) b ?res s)) k =
                   Some inc"
        using k by (simp add: upd split map_add_def split: option.splits)
      then show ?thesis by (simp add: st)
    qed
  next
    assume new: "incidents (createOrUpdateIncident (incident_draws d) b ?res s) =
            AList.update (newIncidentId (incident_draws d)) (newIncident (incident_draws d) b ?res)
              (incidents s)"
    have "k \<in> fst ` set (incidents s)" using k by (auto dest: map_of_SomeD intro: rev_image_eqI)
    then have "k \<noteq> newIncidentId (incident_draws d)" using fresh by blast
    then have "map_get (incidents (createOrUpdateIncident (incident_draws d) b ?res s)) k = Some inc"
      using k by (simp add: new update_conv')
    then show ?thesis by (simp add: st)
  qed
qed

lemma respond_new_sorted:
  assumes ok: "store_ok s"
    and k': "map_get (incidents (fst (respondToAnomaly d b s))) k = Some inc'"
    and k: "map_get (incidents s) k = None"
    and clock: "detection_date (incident_draws d) \<le> action_date (incident_draws d)"
  shows "sorted (timestamps inc')"
proof (cases "findPlaybookForAnomaly s b")
  case None
  then show ?thesis using k k' by (simp add: respond_state)
next
  case (Some pb)
  let ?res = "executePlaybook pb (AnomalyContext b) (exec_draws d)"
  have st: "fst (respondToAnomaly d b s) = createOrUpdateIncident (incident_draws d) b ?res s"
    using Some by (simp add: respond_state)
  from cou_cases [OF ok, of b "incident_draws d" ?res]
  show ?thesis
  proof (elim disjE exE conjE)
    fix xs ex ys
    assume split: "incidents s = xs @ (inc_id ex, ex) # ys"
      and upd: "incidents (createOrUpdateIncident (incident_draws d) b ?res s) =
                  xs @ (inc_id ex, updatedIncident (incident_draws d) ex ?res) # ys"
    have "map fst (incidents (fst (respondToAnomaly d b s))) = map fst (incidents s)"
      by (simp add: st upd split)
    then have "fst ` set (incidents (fst (respondToAnomaly d b s))) = fst ` set (incidents s)"
      by (metis set_map)
    then have "map_get (incidents (fst (respondToAnomaly d b s))) k = None"
      using k by (simp add: map_of_eq_None_iff)
    then show ?thesis using k' by simp
  next
    assume new: "incidents (createOrUpdateIncident (incident_draws d) b ?res s) =
            AList.update (newIncidentId (incident_draws d)) (newIncident (incident_draws d) b ?res)
              (incidents s)"
    have "inc' = newIncident (incident_draws d) b ?res"
      using k k' by (simp add: st new update_conv' split: if_splits)
    then show ?thesis using clock by (simp add: newIncident_simps)
  qed
qed

lemma addEvent_state:
  "map_get (incidents s) i = Some inc \<Longrightarrow>
     fst (addIncidentEvent i ev stamp now s) =
       s\<lparr>incidents := map_set (incidents s) i
           (inc\<lparr>timeline := timeline inc @
                   [\<lparr>ev_id = ''event-'' @ stamp, ev_incidentId = i, ev_type = in_type ev,
                     ev_description = in_description ev, ev_user = in_user ev,
                     ev_timestamp = in_timestamp ev\<rparr>],
                 inc_updatedAt := now\<rparr>)\<rparr>"
  "map_get (incidents s) i = None \<Longrightarrow> fst (addIncidentEvent i ev stamp now s) = s"
  by (simp_all add: addIncidentEvent_def Let_def)

lemma addEvent_timeline:
  assumes k: "map_get (incidents s) k = Some inc"
  shows "\<exists>inc'. map_get (incidents (fst (addIncidentEvent i ev stamp now s))) k = Some inc' \<and>
           prefix (timeline inc) (timeline inc') \<and>
           (sorted (timestamps inc) \<and> (\<forall>t \<in> set (timestamps inc). t \<le> in_timestamp ev)
              \<longrightarrow> sorted (timestamps inc'))"
proof (cases "map_get (incidents s) i")
  case None
  then show ?thesis using k by (simp add: addEvent_state)
next
  case (Some inc_i)
  show ?thesis
  proof (cases "k = i")
    case True
    then have "inc_i = inc" using k Some by simp
    then show ?thesis
      using True Some by (simp add: addEvent_state update_conv' timestamps_def sorted_append)
  next
    case False
    then show ?thesis using k Some by (simp add: addEvent_state update_conv')
  qed
qed

lemma addEvent_keeps_reference:
  assumes "referencing x s \<noteq> []"
  shows "referencing x (fst (addIncidentEvent i ev stamp now s)) \<noteq> []"
proof (cases "map_get (incidents s) i")
  case None
  then show ?thesis using assms by (simp add: addEvent_state)
next
  case (Some inc_i)
  from map_of_split [OF Some] obtain xs ys where
    split: "incidents s = xs @ (i, inc_i) # ys" and nk: "i \<notin> fst ` set xs" by blast
  let ?v = "inc_i\<lparr>timeline := timeline inc_i @
                   [\<lparr>ev_id = ''event-'' @ stamp, ev_incidentId = i, ev_type = in_type ev,
                     ev_description = in_description ev, ev_user = in_user ev,
                     ev_timestamp = in_timestamp ev\<rparr>],
                 inc_updatedAt := now\<rparr>"
  have upd: "incidents (fst (addIncidentEvent i ev stamp now s)) = xs @ (i, ?v) # ys"
    using update_at [OF nk, of ?v inc_i ys] by (simp add: addEvent_state(1) [OF Some] split)
  show ?thesis
    using assms by (simp add: referencing_append [OF split] referencing_append [OF upd])
qed

lemma updateIncident_stores:
  "map_get (incidents (updateIncident inc0 now s)) (inc_id inc0) = Some (inc0\<lparr>inc_updatedAt := now\<rparr>)"
  by (simp add: updateIncident_def update_conv')

lemma afterAnomaly_timestamps:
  "timestamps (newIncident someIncidentDraws networkAnomaly
      (executePlaybook ransomwareResponse (AnomalyContext networkAnomaly) firstStepOnly)) = [105, 105]"
  by (simp add: newIncident_simps someIncidentDraws_def)

text \<open>
  Claim C2, as stated, is false for the two public operations it names. After the service has
  responded to the anomaly \<open>anomaly-1\<close>, updateIncident with an incident of the stored id
  whose timeline and relatedAnomalies are empty replaces the stored incident: the two events
  are gone and no incident references the anomaly any more. addIncidentEvent appends the
  event with the timestamp its caller chose, here 1, after events of timestamp 105.
\<close>

theorem C2_counterexample:
  "map_option timestamps (getIncident afterAnomaly ''incident-105-abc'') = Some [105, 105] \<and>
   map_option timestamps
     (getIncident (updateIncident blankedIncident 400 afterAnomaly) ''incident-105-abc'') = Some [] \<and>
   referencing ''anomaly-1'' afterAnomaly \<noteq> [] \<and>
   referencing ''anomaly-1'' (updateIncident blankedIncident 400 afterAnomaly) = [] \<and>
   map_option timestamps
     (getIncident (fst (addIncidentEvent ''incident-105-abc'' lateComment ''400-x'' 400 afterAnomaly))
        ''incident-105-abc'') = Some [105, 105, 1]"
proof -
  have a: "map_option timestamps (getIncident afterAnomaly ''incident-105-abc'') = Some [105, 105]"
    by (simp add: getIncident_def afterAnomaly_incidents afterAnomaly_timestamps)
  have b: "map_option timestamps
     (getIncident (updateIncident blankedIncident 400 afterAnomaly) ''incident-105-abc'') = Some []"
    by (simp add: getIncident_def updateIncident_def afterAnomaly_incidents blankedIncident_def
        timestamps_def)
  have c: "referencing ''anomaly-1'' afterAnomaly \<noteq> []"
    by (simp add: referencing_def getIncidents_def afterAnomaly_incidents newIncident_simps
        networkAnomaly_def)
  have d: "referencing ''anomaly-1'' (updateIncident blankedIncident 400 afterAnomaly) = []"
    by (simp add: referencing_def getIncidents_def updateIncident_def afterAnomaly_incidents
        blankedIncident_def)
  have e: "map_option timestamps
     (getIncident (fst (addIncidentEvent ''incident-105-abc'' lateComment ''400-x'' 400 afterAnomaly))
        ''incident-105-abc'') = Some [105, 105, 1]"
    using afterAnomaly_timestamps
    by (simp add: getIncident_def addIncidentEvent_def afterAnomaly_incidents lateComment_def
        timestamps_def Let_def)
  show ?thesis using a b c d e by blast
qed

text \<open>
  Claim C2, amended. A response to an anomaly that matches a playbook leaves an incident whose
  relatedAnomalies contains the anomaly; a later response (with a fresh generated incident id,
  on a store keyed by incident id) and addIncidentEvent keep some incident referencing it.
  createOrUpdateIncident and addIncidentEvent only append: the timeline an incident had is a
  prefix of the timeline it has afterwards, and the timestamps stay in non-decreasing order
  when the timestamp of the appended event is not smaller than the ones already there (for
  a new incident: when the clock read for the detection event is not after the one read for
  the action event). updateIncident stores the incident it is given, with a new updatedAt, in
  place of the stored one: timeline and relatedAnomalies are the caller's.
\<close>

theorem C2_incident_history:
  "(findPlaybookForAnomaly s a \<noteq> None \<longrightarrow>
      referencing (an_id a) (fst (respondToAnomaly d a s)) \<noteq> []) \<and>
   (store_ok s \<and> newIncidentId (incident_draws d) \<notin> fst ` set (incidents s) \<longrightarrow>
      (referencing x s \<noteq> [] \<longrightarrow> referencing x (fst (respondToAnomaly d b s)) \<noteq> []) \<and>
      (\<forall>k inc. map_get (incidents s) k = Some inc \<longrightarrow>
         (\<exists>inc'. map_get (incidents (fst (respondToAnomaly d b s))) k = Some inc' \<and>
            prefix (timeline inc) (timeline inc') \<and>
            (sorted (timestamps inc) \<and>
             (\<forall>t \<in> set (timestamps inc). t \<le> event_date (incident_draws d)) \<longrightarrow>
               sorted (timestamps inc')))) \<and>
      (\<forall>k inc'. map_get (incidents s) k = None \<and>
         map_get (incidents (fst (respondToAnomaly d b s))) k = Some inc' \<and>
         detection_date (incident_draws d) \<le> action_date (incident_draws d) \<longrightarrow>
           sorted (timestamps inc'))) \<and>
   (referencing x s \<noteq> [] \<longrightarrow>
      referencing x (fst (addIncidentEvent i ev stamp now s)) \<noteq> []) \<and>
   (\<forall>k inc. map_get (incidents s) k = Some inc \<longrightarrow>
      (\<exists>inc'. map_get (incidents (fst (addIncidentEvent i ev stamp now s))) k = Some inc' \<and>
         prefix (timeline inc) (timeline inc') \<and>
         (sorted (timestamps inc) \<and> (\<forall>t \<in> set (timestamps inc). t \<le> in_timestamp ev) \<longrightarrow>
            sorted (timestamps inc')))) \<and>
   map_get (incidents (updateIncident inc0 now s)) (inc_id inc0) = Some (inc0\<lparr>inc_updatedAt := now\<rparr>)"
proof (intro conjI impI allI)
  show "referencing (an_id a) (fst (respondToAnomaly d a s)) \<noteq> []"
    if "findPlaybookForAnomaly s a \<noteq> None"
    using that by (rule respond_after)
  show "referencing x (fst (respondToAnomaly d b s)) \<noteq> []"
    if "store_ok s \<and> newIncidentId (incident_draws d) \<notin> fst ` set (incidents s)"
      and "referencing x s \<noteq> []"
    using that respond_keeps_reference [of s d x b] by simp
  show "\<exists>inc'. map_get (incidents (fst (respondToAnomaly d b s))) k = Some inc' \<and>
            prefix (timeline inc) (timeline inc') \<and>
            (sorted (timestamps inc) \<and>
             (\<forall>t \<in> set (timestamps inc). t \<le> event_date (incident_draws d)) \<longrightarrow>
               sorted (timestamps inc'))"
    if "store_ok s \<and> newIncidentId (incident_draws d) \<notin> fst ` set (incidents s)"
      and "map_get (incidents s) k = Some inc" for k inc
    using that respond_timeline [of s d k inc b] by blast
  show "sorted (timestamps inc')"
    if "store_ok s \<and> newIncidentId (incident_draws d) \<notin> fst ` set (incidents s)"
      and "map_get (incidents s) k = None \<and>
         map_get (incidents (fst (respondToAnomaly d b s))) k = Some inc' \<and>
         detection_date (incident_draws d) \<le> action_date (incident_draws d)" for k inc'
    using that respond_new_sorted [of s d b k inc'] by blast
  show "referencing x (fst (addIncidentEvent i ev stamp now s)) \<noteq> []"
    if "referencing x s \<noteq> []"
    using that by (rule addEvent_keeps_reference)
  show "\<exists>inc'. map_get (incidents (fst (addIncidentEvent i ev stamp now s))) k = Some inc' \<and>
         prefix (timeline inc) (timeline inc') \<and>
         (sorted (timestamps inc) \<and> (\<forall>t \<in> set (timestamps inc). t \<le> in_timestamp ev) \<longrightarrow>
            sorted (timestamps inc'))"
    if "map_get (incidents s) k = Some inc" for k inc
    using that by (rule addEvent_timeline)
  show "map_get (incidents (updateIncident inc0 now s)) (inc_id inc0) =
          Some (inc0\<lparr>inc_updatedAt := now\<rparr>)"
    by (rule updateIncident_stores)
qed

text \<open>The amended claim on the state after the first response and a second delivery.\<close>

theorem C2_incident_history_witness:
  "findPlaybookForAnomaly afterAnomaly networkAnomaly \<noteq> None \<and>
   store_ok afterAnomaly \<and>
   newIncidentId (incident_draws secondDelivery) \<notin> fst ` set (incidents afterAnomaly) \<and>
   referencing (an_id networkAnomaly) (fst (respondToAnomaly secondDelivery networkAnomaly afterAnomaly))
     \<noteq> [] \<and>
   (\<exists>inc'. map_get (incidents (fst (respondToAnomaly secondDelivery networkAnomaly afterAnomaly)))
             ''incident-105-abc'' = Some inc' \<and>
           prefix (timeline (newIncident someIncidentDraws networkAnomaly
                     (executePlaybook ransomwareResponse (AnomalyContext networkAnomaly) firstStepOnly)))
                  (timeline inc') \<and>
           sorted (timestamps inc'))"
proof -
  let ?inc = "newIncident someIncidentDraws networkAnomaly
                (executePlaybook ransomwareResponse (AnomalyContext networkAnomaly) firstStepOnly)"
  have sev: "an_severity networkAnomaly = Critical \<or> an_severity networkAnomaly = High"
    by (simp add: networkAnomaly_def)
  have "afterAnomaly =
          fst (respondToAnomaly (anomaly_draws someOrchestrationDraws 0) networkAnomaly
                 orchestrationService)"
    unfolding afterAnomaly_def handle_state using sev
    by (simp only: anomalyResult_def AnalyticsResult.simps loop_state if_True
        respondToAnomalies.simps(1) fst_conv)
  then have pbs: "playbooks afterAnomaly = playbooks orchestrationService"
    by (metis step_playbooks)
  have found: "findPlaybookForAnomaly afterAnomaly networkAnomaly \<noteq> None"
    using findPlaybook_playbooks [OF pbs, of networkAnomaly] ransomware_matches by simp
  have ok: "store_ok afterAnomaly"
    by (simp add: store_ok_def afterAnomaly_incidents newIncident_simps newIncidentId_def
        someIncidentDraws_def)
  have fresh: "newIncidentId (incident_draws secondDelivery) \<notin> fst ` set (incidents afterAnomaly)"
    by (simp add: afterAnomaly_incidents secondDelivery_def newIncidentId_def someIncidentDraws_def)
  have k: "map_get (incidents afterAnomaly) ''incident-105-abc'' = Some ?inc"
    by (simp add: afterAnomaly_incidents)
  have srt: "sorted (timestamps ?inc) \<and>
             (\<forall>t \<in> set (timestamps ?inc). t \<le> event_date (incident_draws secondDelivery))"
    unfolding afterAnomaly_timestamps by (simp add: secondDelivery_def someIncidentDraws_def)
  from C2_incident_history [of afterAnomaly networkAnomaly secondDelivery "an_id networkAnomaly"
      networkAnomaly]
  show ?thesis using found ok fresh k srt by blast
qed

end
